theory Spec2Isabelle
  imports Complex_Main
begin

section \<open>The launcher \<open>run.py\<close>: values, errors and the outside world\<close>

text \<open>
  Python exceptions are values of \<open>error\<close>; a function that may raise returns
  \<open>error + 'a\<close> with \<open>Inl\<close> for the exception. Only the class of the exception is kept.
\<close>

datatype error =
    ValueError | KeyError | IndexError | AttributeError | TypeError | AssertionError
  | OSError | JSONDecodeError | CalledProcessError

text \<open>
  The result of \<open>json.load\<close>: a JSON object is a Python \<open>dict\<close>, kept as an association
  list in insertion order; lookups take the first binding of a key.
\<close>

datatype json =
    JNull | JBool bool | JInt int | JFloat real | JStr string
  | JArr "json list" | JObj "(string \<times> json) list"

subsection \<open>\<open>retry_decorator\<close> (lines 74-91)\<close>

text \<open>
  The decorated function is given by the outcome of each of its invocations, numbered from
  \<open>0\<close>. The wrapper returns the final outcome, the number of invocations made and the list of
  the arguments of \<open>time.sleep\<close>, in order. The \<open>while attempt <= retries\<close> loop is
  \<open>retry_loop\<close>; the \<open>return func(*args, **kwargs)\<close> after the loop is its \<open>else\<close> branch.
\<close>

function retry_loop ::
  "nat \<Rightarrow> nat \<Rightarrow> (nat \<Rightarrow> error + 'a) \<Rightarrow> nat \<Rightarrow> nat \<Rightarrow> nat list
     \<Rightarrow> (error + 'a) \<times> nat \<times> nat list" where
  "retry_loop retries backoff func attempt calls sleeps =
     (if attempt \<le> retries then
        (case func calls of
           Inr v \<Rightarrow> (Inr v, Suc calls, sleeps)
         | Inl e \<Rightarrow>
             retry_loop retries backoff func (attempt + 1) (Suc calls)
               (sleeps @ [(attempt + 1) * backoff]))
      else (func calls, Suc calls, sleeps))"
  by pat_completeness auto
termination
  by (relation "measure (\<lambda>(retries, backoff, func, attempt, calls, sleeps). Suc retries - attempt)")
     auto

declare retry_loop.simps [simp del]

definition retry_decorator ::
  "nat \<Rightarrow> nat \<Rightarrow> (nat \<Rightarrow> error + 'a) \<Rightarrow> (error + 'a) \<times> nat \<times> nat list" where
  "retry_decorator retries backoff func = retry_loop retries backoff func 0 0 []"

text \<open>
  \<open>download_jar\<close> is decorated with \<open>@retry_decorator(retries=3, backoff=50)\<close> (line 126).
  Its body starts with \<open>assert spark_version in SUPPORTED_SPARK\<close> (line 128); \<open>rest\<close>
  stands for lines 130-163 (the choice of the version and the download), whose outcome may
  change from one invocation to the next.
\<close>

definition SUPPORTED_SPARK :: "string list" where
  "SUPPORTED_SPARK = [''2.4.0'', ''3.1.1'', ''3.2.1'']"

definition download_jar_body ::
  "(nat \<Rightarrow> error + string) \<Rightarrow> string \<Rightarrow> nat \<Rightarrow> error + string" where
  "download_jar_body rest spark_version k =
     (if spark_version \<in> set SUPPORTED_SPARK then rest k else Inl AssertionError)"

definition download_jar ::
  "(nat \<Rightarrow> error + string) \<Rightarrow> string \<Rightarrow> (error + string) \<times> nat \<times> nat list" where
  "download_jar rest spark_version = retry_decorator 3 50 (download_jar_body rest spark_version)"

subsection \<open>The route table (lines 44-69)\<close>

definition ROUTES :: "(string \<times> (string \<times> string) list) list" where
  "ROUTES =
    [(''group_bys'',
        [(''upload'', ''group-by-upload''),
         (''backfill'', ''group-by-backfill''),
         (''streaming'', ''group-by-streaming''),
         (''local-streaming'', ''group-by-streaming''),
         (''fetch'', ''fetch''),
         (''analyze'', ''analyze''),
         (''metadata-export'', ''metadata-export'')]),
     (''joins'',
        [(''backfill'', ''join''),
         (''metadata-upload'', ''metadata-upload''),
         (''fetch'', ''fetch''),
         (''consistency-metrics-compute'', ''consistency-metrics-compute''),
         (''stats-summary'', ''stats-summary''),
         (''analyze'', ''analyze''),
         (''log-flattener'', ''log-flattener''),
         (''metadata-export'', ''metadata-export''),
         (''label-join'', ''label-join'')]),
     (''staging_queries'',
        [(''backfill'', ''staging-query-backfill''),
         (''metadata-export'', ''metadata-export'')])]"

text \<open>\<open>d[k]\<close> on a dict: \<open>KeyError\<close> when the key is absent.\<close>

definition getitem :: "('k \<times> 'v) list \<Rightarrow> 'k \<Rightarrow> error + 'v" where
  "getitem d k = (case map_of d k of None \<Rightarrow> Inl KeyError | Some v \<Rightarrow> Inr v)"

text \<open>
  Lines 259-261 of \<open>Runner.__init__\<close>: \<open>possible_modes = ROUTES[self.conf_type].keys()\<close>,
  then \<open>assert args.mode in possible_modes\<close>. The mode is \<open>None\<close> when the parser gave none.
\<close>

definition check_mode :: "string \<Rightarrow> string option \<Rightarrow> error + unit" where
  "check_mode conf_type mode =
     (case getitem ROUTES conf_type of
        Inl e \<Rightarrow> Inl e
      | Inr modes \<Rightarrow>
          (case mode of
             None \<Rightarrow> Inl AssertionError
           | Some m \<Rightarrow> if m \<in> set (map fst modes) then Inr () else Inl AssertionError))"

text \<open>Line 279 of \<open>Runner.run\<close>: \<open>subcommand = ROUTES[self.conf_type][self.mode]\<close>.\<close>

definition subcommand :: "string \<Rightarrow> string \<Rightarrow> error + string" where
  "subcommand conf_type mode =
     (case getitem ROUTES conf_type of
        Inl e \<Rightarrow> Inl e
      | Inr modes \<Rightarrow> getitem modes mode)"

subsection \<open>Python and library primitives used by \<open>set_runtime_env\<close>\<close>

text \<open>
  What the launcher reads from outside the process: \<open>os.path.exists\<close>, the result of
  \<open>open\<close> followed by \<open>json.load\<close> on a path, \<open>str()\<close> of a JSON value that is not a
  string (used by \<open>str.format\<close>), the results of \<open>subprocess.check_output\<close> and
  \<open>subprocess.check_call\<close> on an argument vector (the output already decoded), and the
  result of \<open>json.loads\<close> on a given text.
\<close>

record world =
  path_exists :: "string \<Rightarrow> bool"
  load_json :: "string \<Rightarrow> error + json"
  str_of :: "json \<Rightarrow> string"
  subprocess_check_output :: "string list \<Rightarrow> error + string"
  subprocess_check_call :: "string list \<Rightarrow> error + unit"
  json_loads :: "string \<Rightarrow> error + json"

text \<open>The attributes of the \<open>argparse\<close> namespace that \<open>set_runtime_env\<close> reads.\<close>

record args =
  repo :: "string option"
  conf :: "string option"
  mode :: "string option"
  app_name :: "string option"
  chronon_jar :: "string option"
  online_jar :: "string option"
  online_class :: "string option"

text \<open>\<open>os.environ\<close>, in insertion order.\<close>

type_synonym environ = "(string \<times> string) list"

text \<open>Truth value of a \<open>str\<close> or \<open>None\<close>: \<open>None\<close> and the empty string are false.\<close>

definition truthy :: "string option \<Rightarrow> bool" where
  "truthy s = (case s of None \<Rightarrow> False | Some t \<Rightarrow> t \<noteq> [])"

text \<open>\<open>s.split(sep)\<close> for a one-character separator: empty pieces are kept.\<close>

fun split_on :: "char \<Rightarrow> string \<Rightarrow> string list" where
  "split_on sep [] = [[]]"
| "split_on sep (c # cs) =
     (if c = sep then [] # split_on sep cs
      else (case split_on sep cs of
              [] \<Rightarrow> [[c]]
            | p # ps \<Rightarrow> (c # p) # ps))"

text \<open>The slice \<open>xs[-4:]\<close>.\<close>

definition last4 :: "'a list \<Rightarrow> 'a list" where
  "last4 xs = drop (length xs - 4) xs"

text \<open>
  \<open>context, conf_type, team, _ = conf.split('/')[-4:]\<close> (lines 196 and 253): unpacking
  raises \<open>ValueError\<close> unless the slice has exactly four elements.
\<close>

definition unpack_conf :: "string \<Rightarrow> error + string \<times> string \<times> string" where
  "unpack_conf c =
     (case last4 (split_on CHR ''/'' c) of
        [context, conf_type, team, _] \<Rightarrow> Inr (context, conf_type, team)
      | _ \<Rightarrow> Inl ValueError)"

fun startswith :: "string \<Rightarrow> string \<Rightarrow> bool" where
  "startswith s [] = True"
| "startswith [] (p # ps) = False"
| "startswith (c # cs) (p # ps) = (c = p \<and> startswith cs ps)"

text \<open>\<open>os.path.join(a, b)\<close> on POSIX, for two components.\<close>

definition path_join :: "string \<Rightarrow> string \<Rightarrow> string" where
  "path_join a b =
     (if startswith b ''/'' then b
      else if a = [] \<or> last a = CHR ''/'' then a @ b
      else a @ ''/'' @ b)"

text \<open>
  \<open>v.get(k, {})\<close> and \<open>v.get(k)\<close>: only a dict has \<open>get\<close>, any other value raises
  \<open>AttributeError\<close>. Python's \<open>None\<close> is \<open>JNull\<close>.
\<close>

definition get_or_empty :: "json \<Rightarrow> string \<Rightarrow> error + json" where
  "get_or_empty v k =
     (case v of
        JObj d \<Rightarrow> (case map_of d k of None \<Rightarrow> Inr (JObj []) | Some x \<Rightarrow> Inr x)
      | _ \<Rightarrow> Inl AttributeError)"

definition get_or_none :: "json \<Rightarrow> string \<Rightarrow> error + json" where
  "get_or_none v k =
     (case v of
        JObj d \<Rightarrow> (case map_of d k of None \<Rightarrow> Inr JNull | Some x \<Rightarrow> Inr x)
      | _ \<Rightarrow> Inl AttributeError)"

text \<open>
  \<open>v[k]\<close> with a string key: \<open>KeyError\<close> on a dict without the key, \<open>TypeError\<close> on any
  value that is not a dict.
\<close>

definition subscript :: "json \<Rightarrow> string \<Rightarrow> error + json" where
  "subscript v k =
     (case v of
        JObj d \<Rightarrow> getitem d k
      | _ \<Rightarrow> Inl TypeError)"

text \<open>\<open>d[k] = v\<close> on a dict: an existing key keeps its position.\<close>

fun dict_set :: "'k \<Rightarrow> 'v \<Rightarrow> ('k \<times> 'v) list \<Rightarrow> ('k \<times> 'v) list" where
  "dict_set k v [] = [(k, v)]"
| "dict_set k v (p # d) = (if fst p = k then (k, v) # d else p # dict_set k v d)"

definition opt_json :: "string option \<Rightarrow> json" where
  "opt_json s = (case s of None \<Rightarrow> JNull | Some t \<Rightarrow> JStr t)"

text \<open>A value substituted for a \<open>{field}\<close> of \<open>str.format\<close>.\<close>

definition format_value :: "world \<Rightarrow> json \<Rightarrow> string" where
  "format_value w v = (case v of JStr s \<Rightarrow> s | _ \<Rightarrow> str_of w v)"

text \<open>\<open>APP_NAME_TEMPLATE.format(...)\<close> (line 71).\<close>

definition APP_NAME_TEMPLATE :: "string \<Rightarrow> string \<Rightarrow> string \<Rightarrow> string \<Rightarrow> string" where
  "APP_NAME_TEMPLATE conf_type m context name =
     ''chronon_'' @ conf_type @ ''_'' @ m @ ''_'' @ context @ ''_'' @ name"

subsection \<open>\<open>set_runtime_env\<close>: the five layers (lines 181-223)\<close>

record environment =
  common_env :: json
  conf_env :: json
  default_env :: json
  team_env :: json
  cli_args :: "(string \<times> json) list"

definition empty_environment :: environment where
  "empty_environment =
     \<lparr>common_env = JObj [], conf_env = JObj [], default_env = JObj [], team_env = JObj [],
      cli_args = []\<rparr>"

text \<open>Line 193: \<open>teams_json.get('default', {}).get("common_env", {})\<close>.\<close>

definition common_env_of :: "json \<Rightarrow> error + json" where
  "common_env_of teams_json =
     (case get_or_empty teams_json ''default'' of
        Inl e \<Rightarrow> Inl e
      | Inr d \<Rightarrow> get_or_empty d ''common_env'')"

text \<open>Line 206: \<open>conf_json.get('metaData').get('modeToEnvMap', {}).get(args.mode, {})\<close>.\<close>

definition conf_env_of :: "json \<Rightarrow> string \<Rightarrow> error + json" where
  "conf_env_of conf_json m =
     (case get_or_none conf_json ''metaData'' of
        Inl e \<Rightarrow> Inl e
      | Inr md \<Rightarrow>
          (case get_or_empty md ''modeToEnvMap'' of
             Inl e \<Rightarrow> Inl e
           | Inr envs \<Rightarrow> get_or_empty envs m))"

text \<open>Line 207: \<open>teams_json[team].get(context, {}).get(args.mode, {})\<close>.\<close>

definition team_env_of :: "json \<Rightarrow> string \<Rightarrow> string \<Rightarrow> string \<Rightarrow> error + json" where
  "team_env_of teams_json team context m =
     (case subscript teams_json team of
        Inl e \<Rightarrow> Inl e
      | Inr t \<Rightarrow>
          (case get_or_empty t context of
             Inl e \<Rightarrow> Inl e
           | Inr c \<Rightarrow> get_or_empty c m))"

text \<open>Line 208: \<open>teams_json.get('default', {}).get(context, {}).get(args.mode, {})\<close>.\<close>

definition default_env_of :: "json \<Rightarrow> string \<Rightarrow> string \<Rightarrow> error + json" where
  "default_env_of teams_json context m =
     (case get_or_empty teams_json ''default'' of
        Inl e \<Rightarrow> Inl e
      | Inr d \<Rightarrow>
          (case get_or_empty d context of
             Inl e \<Rightarrow> Inl e
           | Inr c \<Rightarrow> get_or_empty c m))"

text \<open>Lines 209-213: the name is \<open>conf_json['metaData']['name']\<close>.\<close>

definition conf_name :: "json \<Rightarrow> error + json" where
  "conf_name conf_json =
     (case subscript conf_json ''metaData'' of
        Inl e \<Rightarrow> Inl e
      | Inr md \<Rightarrow> subscript md ''name'')"

text \<open>
  Lines 195-214, entered when \<open>args.conf\<close> and \<open>args.mode\<close> are both true: \<open>r\<close>, \<open>c\<close> and
  \<open>m\<close> are \<open>args.repo\<close>, \<open>args.conf\<close> and \<open>args.mode\<close>.
\<close>

definition conf_layers ::
  "world \<Rightarrow> string \<Rightarrow> string \<Rightarrow> string \<Rightarrow> json \<Rightarrow> environment \<Rightarrow> error + environment" where
  "conf_layers w r c m teams_json environment =
     (case unpack_conf c of
        Inl e \<Rightarrow> Inl e
      | Inr (context, conf_type, team) \<Rightarrow>
     (let conf_path = path_join r c in
      case load_json w conf_path of
        Inl e \<Rightarrow> Inl e
      | Inr conf_json \<Rightarrow>
     (case conf_env_of conf_json m of
        Inl e \<Rightarrow> Inl e
      | Inr ce \<Rightarrow>
     (case team_env_of teams_json team context m of
        Inl e \<Rightarrow> Inl e
      | Inr te \<Rightarrow>
     (case default_env_of teams_json context m of
        Inl e \<Rightarrow> Inl e
      | Inr de \<Rightarrow>
     (case conf_name conf_json of
        Inl e \<Rightarrow> Inl e
      | Inr name \<Rightarrow>
          Inr (environment
                 \<lparr>conf_env := ce, team_env := te, default_env := de,
                  cli_args :=
                    dict_set ''CHRONON_CONF_PATH'' (JStr conf_path)
                      (dict_set ''APP_NAME''
                         (JStr (APP_NAME_TEMPLATE conf_type m context (format_value w name)))
                         (cli_args environment))\<rparr>)))))))"

text \<open>Lines 188-214.\<close>

definition repo_layers :: "world \<Rightarrow> args \<Rightarrow> environment \<Rightarrow> error + environment" where
  "repo_layers w a environment =
     (case repo a of
        None \<Rightarrow> Inr environment
      | Some r \<Rightarrow>
          if r = [] then Inr environment
          else
            (let teams_file = path_join r ''teams.json'' in
             if path_exists w teams_file then
               (case load_json w teams_file of
                  Inl e \<Rightarrow> Inl e
                | Inr teams_json \<Rightarrow>
                    (case common_env_of teams_json of
                       Inl e \<Rightarrow> Inl e
                     | Inr ce \<Rightarrow>
                         (case (conf a, mode a) of
                            (Some c, Some m) \<Rightarrow>
                              if c \<noteq> [] \<and> m \<noteq> []
                              then conf_layers w r c m teams_json
                                     (environment\<lparr>common_env := ce\<rparr>)
                              else Inr (environment\<lparr>common_env := ce\<rparr>)
                          | _ \<Rightarrow> Inr (environment\<lparr>common_env := ce\<rparr>))))
             else Inr environment))"

text \<open>Lines 215-223.\<close>

definition cli_layer :: "args \<Rightarrow> environment \<Rightarrow> environment" where
  "cli_layer a environment =
     (let named =
        (if truthy (app_name a)
         then dict_set ''APP_NAME'' (opt_json (app_name a)) (cli_args environment)
         else if mode a = Some ''metadata-export''
         then dict_set ''APP_NAME'' (JStr ''chronon_metadata_export'') (cli_args environment)
         else cli_args environment)
      in environment
           \<lparr>cli_args :=
              dict_set ''CHRONON_ONLINE_CLASS'' (opt_json (online_class a))
                (dict_set ''CHRONON_ONLINE_JAR'' (opt_json (online_jar a))
                   (dict_set ''CHRONON_DRIVER_JAR'' (opt_json (chronon_jar a)) named))\<rparr>)"

definition load_environment :: "world \<Rightarrow> args \<Rightarrow> error + environment" where
  "load_environment w a =
     (case repo_layers w a empty_environment of
        Inl e \<Rightarrow> Inl e
      | Inr environment \<Rightarrow> Inr (cli_layer a environment))"

subsection \<open>\<open>set_runtime_env\<close>: applying the layers (lines 224-233)\<close>

text \<open>\<open>order = ['conf_env', 'team_env', 'default_env', 'common_env', 'cli_args']\<close>.\<close>

definition order :: "environment \<Rightarrow> json list" where
  "order environment =
     [conf_env environment, team_env environment, default_env environment,
      common_env environment, JObj (cli_args environment)]"

fun is_substring :: "string \<Rightarrow> string \<Rightarrow> bool" where
  "is_substring k [] = (k = [])"
| "is_substring k (c # cs) = (startswith (c # cs) k \<or> is_substring k cs)"

text \<open>
  \<open>key in v\<close> for a string \<open>key\<close>: key membership in a dict, element membership in a list,
  substring test in a string, \<open>TypeError\<close> otherwise.
\<close>

definition py_in :: "string \<Rightarrow> json \<Rightarrow> error + bool" where
  "py_in key v =
     (case v of
        JObj d \<Rightarrow> Inr (key \<in> set (map fst d))
      | JArr xs \<Rightarrow> Inr (JStr key \<in> set xs)
      | JStr s \<Rightarrow> Inr (is_substring key s)
      | _ \<Rightarrow> Inl TypeError)"

text \<open>Line 227: the list \<open>[key in environment[set_key] for set_key in order]\<close>.\<close>

fun key_in_layers :: "string \<Rightarrow> json list \<Rightarrow> error + bool list" where
  "key_in_layers key [] = Inr []"
| "key_in_layers key (l # ls) =
     (case py_in key l of
        Inl e \<Rightarrow> Inl e
      | Inr b \<Rightarrow> (case key_in_layers key ls of Inl e \<Rightarrow> Inl e | Inr bs \<Rightarrow> Inr (b # bs)))"

text \<open>Lines 226-228: the loop that prints the variables found in the environment.\<close>

fun print_found :: "environ \<Rightarrow> json list \<Rightarrow> error + unit" where
  "print_found [] layers = Inr ()"
| "print_found (kv # rest) layers =
     (case key_in_layers (fst kv) layers of
        Inl e \<Rightarrow> Inl e
      | Inr _ \<Rightarrow> print_found rest layers)"

text \<open>
  \<open>os.environ[key] = value\<close> for a string \<open>key\<close>: \<open>TypeError\<close> for a value that is not a
  string; \<open>ValueError\<close> for a NUL in the name or the value and for a name that contains
  \<open>=\<close>; \<open>OSError\<close> for the empty name (\<open>setenv\<close> refuses it).
\<close>

definition environ_setitem :: "string \<Rightarrow> json \<Rightarrow> environ \<Rightarrow> error + environ" where
  "environ_setitem key val env =
     (case val of
        JStr s \<Rightarrow>
          if CHR 0x00 \<in> set key \<or> CHR 0x00 \<in> set s \<or> CHR ''='' \<in> set key then Inl ValueError
          else if key = [] then Inl OSError
          else Inr (dict_set key s env)
      | _ \<Rightarrow> Inl TypeError)"

text \<open>
  Lines 230-233, the loop over the items of one layer. When an assignment raises, the
  variables set before it stay set.
\<close>

fun set_items :: "(string \<times> json) list \<Rightarrow> environ \<Rightarrow> (error + unit) \<times> environ" where
  "set_items [] env = (Inr (), env)"
| "set_items ((key, val) # items) env =
     (if map_of env key = None \<and> val \<noteq> JNull then
        (case environ_setitem key val env of
           Inl e \<Rightarrow> (Inl e, env)
         | Inr env' \<Rightarrow> set_items items env')
      else set_items items env)"

text \<open>Lines 229-233: \<open>.items()\<close> exists on a dict only.\<close>

fun set_layers :: "json list \<Rightarrow> environ \<Rightarrow> (error + unit) \<times> environ" where
  "set_layers [] env = (Inr (), env)"
| "set_layers (l # ls) env =
     (case l of
        JObj d \<Rightarrow>
          (case set_items d env of
             (Inl e, env') \<Rightarrow> (Inl e, env')
           | (Inr _, env') \<Rightarrow> set_layers ls env')
      | _ \<Rightarrow> (Inl AttributeError, env))"

text \<open>
  \<open>set_runtime_env(args)\<close>: the outcome and \<open>os.environ\<close> afterwards (also after an
  exception).
\<close>

definition set_runtime_env :: "world \<Rightarrow> args \<Rightarrow> environ \<Rightarrow> (error + unit) \<times> environ" where
  "set_runtime_env w a env =
     (case load_environment w a of
        Inl e \<Rightarrow> (Inl e, env)
      | Inr environment \<Rightarrow>
          (case print_found env (order environment) of
             Inl e \<Rightarrow> (Inl e, env)
           | Inr _ \<Rightarrow> set_layers (order environment) env))"

subsection \<open>Strings and subprocesses\<close>

text \<open>
  A character of a \<open>str\<close> is its code point, below 256. Whitespace as \<open>str.strip\<close>,
  \<open>str.split\<close>, \<open>str.isspace\<close> and the pattern \<open>\s\<close> see it: tab, line feed, vertical
  tab, form feed, carriage return, the separators \<open>0x1C\<close> to \<open>0x1F\<close>, space, next line
  (\<open>0x85\<close>) and no-break space (\<open>0xA0\<close>). Whitespace as \<open>bytes.strip\<close>, \<open>bytes.split\<close>
  and \<open>int\<close> on bytes see it: tab to carriage return, and space. Whitespace that \<open>int\<close>
  strips from a \<open>str\<close>: the same, with next line and no-break space. The output of a
  subprocess is given decoded; stripping the bytes' whitespace commutes with decoding.
\<close>

definition is_space :: "char \<Rightarrow> bool" where
  "is_space c =
     (let n = (of_char c :: nat)
      in (9 \<le> n \<and> n \<le> 13) \<or> (28 \<le> n \<and> n \<le> 32) \<or> n = 133 \<or> n = 160)"

definition is_bytes_space :: "char \<Rightarrow> bool" where
  "is_bytes_space c = (let n = (of_char c :: nat) in (9 \<le> n \<and> n \<le> 13) \<or> n = 32)"

definition is_int_space :: "char \<Rightarrow> bool" where
  "is_int_space c =
     (let n = (of_char c :: nat) in (9 \<le> n \<and> n \<le> 13) \<or> n = 32 \<or> n = 133 \<or> n = 160)"

definition is_digit :: "char \<Rightarrow> bool" where
  "is_digit c = (let n = (of_char c :: nat) in 48 \<le> n \<and> n \<le> 57)"

definition strip :: "(char \<Rightarrow> bool) \<Rightarrow> string \<Rightarrow> string" where
  "strip sp s = rev (dropWhile sp (rev (dropWhile sp s)))"

text \<open>
  \<open>s.split()\<close>: the maximal runs of characters that are not whitespace, for the
  whitespace \<open>sp\<close> of the type of \<open>s\<close>.
\<close>

fun split_ws_from :: "(char \<Rightarrow> bool) \<Rightarrow> string \<Rightarrow> string \<Rightarrow> string list" where
  "split_ws_from sp cur [] = (if cur = [] then [] else [rev cur])"
| "split_ws_from sp cur (c # cs) =
     (if sp c then (if cur = [] then split_ws_from sp [] cs else rev cur # split_ws_from sp [] cs)
      else split_ws_from sp (c # cur) cs)"

definition split_ws :: "(char \<Rightarrow> bool) \<Rightarrow> string \<Rightarrow> string list" where
  "split_ws sp s = split_ws_from sp [] s"

text \<open>
  \<open>str.lower\<close> below 256: the letters \<open>A\<close> to \<open>Z\<close> and the capital letters \<open>0xC0\<close> to
  \<open>0xDE\<close> (without the multiplication sign \<open>0xD7\<close>) move up by 32.
\<close>

definition lower_char :: "char \<Rightarrow> char" where
  "lower_char c =
     (let n = (of_char c :: nat)
      in if (65 \<le> n \<and> n \<le> 90) \<or> (192 \<le> n \<and> n \<le> 222 \<and> n \<noteq> 215) then char_of (n + 32)
         else c)"

definition lower :: "string \<Rightarrow> string" where
  "lower s = map lower_char s"

text \<open>\<open>xs[0]\<close> and \<open>xs[-1]\<close>.\<close>

definition first_item :: "'a list \<Rightarrow> error + 'a" where
  "first_item xs = (case xs of [] \<Rightarrow> Inl IndexError | x # _ \<Rightarrow> Inr x)"

definition last_item :: "'a list \<Rightarrow> error + 'a" where
  "last_item xs = (case rev xs of [] \<Rightarrow> Inl IndexError | x # _ \<Rightarrow> Inr x)"

text \<open>
  \<open>int(s)\<close> on text: surrounding whitespace (\<open>sp\<close>, by the type of \<open>s\<close>), an optional
  sign, then decimal digits in which single underscores may separate digits; \<open>ValueError\<close>
  otherwise.
\<close>

fun parse_digits :: "bool \<Rightarrow> nat \<Rightarrow> string \<Rightarrow> nat option" where
  "parse_digits prev acc [] = (if prev then Some acc else None)"
| "parse_digits prev acc (c # cs) =
     (if is_digit c then parse_digits True (10 * acc + (of_char c - 48)) cs
      else if c = CHR ''_'' \<and> prev then parse_digits False acc cs
      else None)"

definition py_int :: "(char \<Rightarrow> bool) \<Rightarrow> string \<Rightarrow> error + int" where
  "py_int sp s =
     (case strip sp s of
        [] \<Rightarrow> Inl ValueError
      | c # cs \<Rightarrow>
          if c = CHR ''-'' then
            (case parse_digits False 0 cs of None \<Rightarrow> Inl ValueError | Some n \<Rightarrow> Inr (- int n))
          else if c = CHR ''+'' then
            (case parse_digits False 0 cs of None \<Rightarrow> Inl ValueError | Some n \<Rightarrow> Inr (int n))
          else
            (case parse_digits False 0 (c # cs) of
               None \<Rightarrow> Inl ValueError
             | Some n \<Rightarrow> Inr (int n)))"

text \<open>
  \<open>re.search("(content-length:\\s)(\\d+)", s)\<close>: the text of the leftmost match, with the
  longest run of digits, or \<open>None\<close>.
\<close>

definition match_content_length :: "string \<Rightarrow> string option" where
  "match_content_length s =
     (if startswith s ''content-length:'' then
        (case drop 15 s of
           [] \<Rightarrow> None
         | c # rest \<Rightarrow>
             if is_space c \<and> takeWhile is_digit rest \<noteq> []
             then Some (''content-length:'' @ c # takeWhile is_digit rest)
             else None)
      else None)"

fun search_content_length :: "string \<Rightarrow> string option" where
  "search_content_length [] = None"
| "search_content_length (c # cs) =
     (case match_content_length (c # cs) of
        Some g \<Rightarrow> Some g
      | None \<Rightarrow> search_content_length cs)"

text \<open>
  \<open>check_call\<close> and \<open>check_output\<close> (lines 94-101): the command is split on whitespace;
  the output is stripped as bytes.
\<close>

definition check_call :: "world \<Rightarrow> string \<Rightarrow> error + unit" where
  "check_call w cmd = subprocess_check_call w (split_ws is_space cmd)"

definition check_output :: "world \<Rightarrow> string \<Rightarrow> error + string" where
  "check_output w cmd =
     (case subprocess_check_output w (split_ws is_space cmd) of
        Inl e \<Rightarrow> Inl e
      | Inr out \<Rightarrow> Inr (strip is_bytes_space out))"

subsection \<open>\<open>download_only_once\<close> (lines 104-123)\<close>

text \<open>Lines 108-110: the size that the \<open>HEAD\<close> request reports.\<close>

definition remote_size :: "world \<Rightarrow> string \<Rightarrow> error + int" where
  "remote_size w url =
     (case check_output w (''curl -sI '' @ url) of
        Inl e \<Rightarrow> Inl e
      | Inr content_output \<Rightarrow>
          (case search_content_length (lower content_output) of
             None \<Rightarrow> Inl AttributeError
           | Some content_length \<Rightarrow>
               (case last_item (split_ws is_space content_length) of
                  Inl e \<Rightarrow> Inl e
                | Inr digits \<Rightarrow> py_int is_int_space digits)))"

text \<open>Line 111: the size of the local file, from the bytes that \<open>wc -c\<close> prints.\<close>

definition local_size :: "world \<Rightarrow> string \<Rightarrow> error + int" where
  "local_size w path =
     (case check_output w (''wc -c '' @ path) of
        Inl e \<Rightarrow> Inl e
      | Inr out \<Rightarrow>
          (case first_item (split_ws is_bytes_space out) of
             Inl e \<Rightarrow> Inl e
           | Inr count \<Rightarrow> py_int is_bytes_space count))"

text \<open>The command of lines 120 and 123.\<close>

definition curl_download :: "string \<Rightarrow> string \<Rightarrow> string" where
  "curl_download url path = ''curl '' @ url @ '' -o '' @ path @ '' --connect-timeout 10''"

text \<open>
  The outcome of \<open>download_only_once(url, path)\<close> and the commands it has passed to
  \<open>check_call\<close>, in order.
\<close>

definition download_only_once :: "world \<Rightarrow> string \<Rightarrow> string \<Rightarrow> (error + unit) \<times> string list" where
  "download_only_once w url path0 =
     (let path = strip is_space path0 in
      if path_exists w path then
        (case remote_size w url of
           Inl e \<Rightarrow> (Inl e, [])
         | Inr remote \<Rightarrow>
             (case local_size w path of
                Inl e \<Rightarrow> (Inl e, [])
              | Inr local \<Rightarrow>
                  (let should_download = (local \<noteq> remote) in
                   if should_download
                   then (check_call w (curl_download url path), [curl_download url path])
                   else (Inr (), []))))
      else (check_call w (curl_download url path), [curl_download url path]))"

text \<open>The number that a string of decimal digits denotes.\<close>

definition decimal :: "string \<Rightarrow> nat" where
  "decimal ds = foldl (\<lambda>acc d. 10 * acc + (of_char d - 48)) 0 ds"

subsection \<open>\<open>Runner\<close> (lines 236-315)\<close>

text \<open>\<open>str.format\<close> of a value that is a string or \<open>None\<close>.\<close>

definition fmt :: "string option \<Rightarrow> string" where
  "fmt s = (case s of None \<Rightarrow> ''None'' | Some t \<Rightarrow> t)"

text \<open>The argument templates (lines 13-16), as functions of the values substituted.\<close>

definition ONLINE_ARGS :: "string option \<Rightarrow> string option \<Rightarrow> string" where
  "ONLINE_ARGS oj oc = ''--online-jar='' @ fmt oj @ '' --online-class='' @ fmt oc @ '' ''"

definition OFFLINE_ARGS :: "string option \<Rightarrow> string option \<Rightarrow> string" where
  "OFFLINE_ARGS conf_path ds = ''--conf-path='' @ fmt conf_path @ '' --end-date='' @ fmt ds @ '' ''"

definition ONLINE_WRITE_ARGS :: "string option \<Rightarrow> string option \<Rightarrow> string option \<Rightarrow> string" where
  "ONLINE_WRITE_ARGS conf_path oj oc = ''--conf-path='' @ fmt conf_path @ '' '' @ ONLINE_ARGS oj oc"

definition SPARK_MODES :: "string list" where
  "SPARK_MODES =
     [''backfill'', ''upload'', ''streaming'', ''consistency-metrics-compute'', ''analyze'',
      ''stats-summary'', ''log-flattener'', ''metadata-export'', ''label-join'']"

text \<open>
  \<open>MODE_ARGS\<close> (lines 29-42): each template takes \<open>conf_path\<close>, \<open>ds\<close>, \<open>online_jar\<close> and
  \<open>online_class\<close>.
\<close>

definition MODE_ARGS ::
  "(string \<times> (string option \<Rightarrow> string option \<Rightarrow> string option \<Rightarrow> string option \<Rightarrow> string)) list" where
  "MODE_ARGS =
     [(''backfill'', \<lambda>c d oj oc. OFFLINE_ARGS c d),
      (''upload'', \<lambda>c d oj oc. OFFLINE_ARGS c d),
      (''stats-summary'', \<lambda>c d oj oc. OFFLINE_ARGS c d),
      (''analyze'', \<lambda>c d oj oc. OFFLINE_ARGS c d),
      (''streaming'', \<lambda>c d oj oc. ONLINE_WRITE_ARGS c oj oc),
      (''metadata-upload'', \<lambda>c d oj oc. ONLINE_WRITE_ARGS c oj oc),
      (''fetch'', \<lambda>c d oj oc. ONLINE_ARGS oj oc),
      (''consistency-metrics-compute'', \<lambda>c d oj oc. OFFLINE_ARGS c d),
      (''local-streaming'', \<lambda>c d oj oc. ONLINE_WRITE_ARGS c oj oc @ '' -d''),
      (''log-flattener'', \<lambda>c d oj oc. OFFLINE_ARGS c d),
      (''metadata-export'', \<lambda>c d oj oc. OFFLINE_ARGS c d),
      (''label-join'', \<lambda>c d oj oc. OFFLINE_ARGS c d)]"

text \<open>
  Lines 251-263 of \<open>Runner.__init__\<close>: the conf type comes from the conf path, with the
  mode checked against the route table, or from \<open>args.conf_type\<close> when there is no conf.
\<close>

definition init_conf_type ::
  "string option \<Rightarrow> string option \<Rightarrow> string option \<Rightarrow> error + string option" where
  "init_conf_type conf_arg mode_arg conf_type_arg =
     (case conf_arg of
        None \<Rightarrow> Inr conf_type_arg
      | Some c \<Rightarrow>
          if c = [] then Inr conf_type_arg
          else
            (case unpack_conf c of
               Inl e \<Rightarrow> Inl e
             | Inr (context, conf_type, team) \<Rightarrow>
                 (case check_mode conf_type mode_arg of
                    Inl e \<Rightarrow> Inl e
                  | Inr _ \<Rightarrow> Inr (Some conf_type))))"

text \<open>The attributes of a \<open>Runner\<close> that \<open>run\<close> reads.\<close>

record runner =
  self_conf :: "string option"
  self_sub_help :: bool
  self_mode :: "string option"
  self_online_jar :: "string option"
  self_conf_type :: "string option"
  self_ds :: "string option"
  self_jar_path :: "string option"
  self_args :: string
  self_online_class :: "string option"
  self_app_name :: "string option"
  self_spark_submit :: "string option"
  self_list_apps_cmd :: "string option"

text \<open>
  Lines 292-297, the body of the \<open>try\<close>: the stripped \<open>app_name\<close> of a line of the listing
  and its record, or \<open>None\<close> when an exception is caught (the text is not JSON, the value
  is not a dict with \<open>app_name\<close>, or \<open>app_name\<close> is not a string).
\<close>

definition line_app :: "world \<Rightarrow> string \<Rightarrow> (string \<times> json) option" where
  "line_app w app =
     (case json_loads w (strip is_space app) of
        Inl e \<Rightarrow> None
      | Inr app_json \<Rightarrow>
          (case subscript app_json ''app_name'' of
             Inl e \<Rightarrow> None
           | Inr v \<Rightarrow> (case v of JStr s \<Rightarrow> Some (strip is_space s, app_json) | _ \<Rightarrow> None)))"

text \<open>\<open>d.get(k, [])\<close>.\<close>

definition get_list :: "('k \<times> 'v list) list \<Rightarrow> 'k \<Rightarrow> 'v list" where
  "get_list d k = (case map_of d k of None \<Rightarrow> [] | Some xs \<Rightarrow> xs)"

text \<open>Lines 290-300: the loop that groups the running apps by name.\<close>

fun running_app_map :: "world \<Rightarrow> string list \<Rightarrow> (string \<times> json list) list \<Rightarrow> (string \<times> json list) list" where
  "running_app_map w [] m = m"
| "running_app_map w (app # apps) m =
     (case line_app w app of
        None \<Rightarrow> running_app_map w apps m
      | Some (name, app_json) \<Rightarrow>
          (let m1 = (if map_of m name = None then dict_set name [] m else m)
           in running_app_map w apps (dict_set name (get_list m1 name @ [app_json]) m1)))"

definition java_command :: "runner \<Rightarrow> string \<Rightarrow> string \<Rightarrow> string" where
  "java_command self sub final_args =
     ''java -cp '' @ fmt (self_jar_path self) @ '' ai.chronon.spark.Driver '' @ sub @ '' ''
       @ (if self_sub_help self then ''--help'' else final_args)"

definition submit_command :: "runner \<Rightarrow> string \<Rightarrow> string \<Rightarrow> string" where
  "submit_command self sub final_args =
     ''bash '' @ fmt (self_spark_submit self) @ '' --class ai.chronon.spark.Driver ''
       @ fmt (self_jar_path self) @ '' '' @ sub @ '' '' @ final_args"

text \<open>Lines 276-278.\<close>

definition final_args_of :: "runner \<Rightarrow> string \<Rightarrow> error + string" where
  "final_args_of self m =
     (case getitem MODE_ARGS m of
        Inl e \<Rightarrow> Inl e
      | Inr template \<Rightarrow>
          Inr (template (self_conf self) (self_ds self) (self_online_jar self)
                 (self_online_class self) @ '' '' @ self_args self))"

text \<open>
  \<open>Runner.run\<close>: the outcome and the commands passed to \<open>check_call\<close>. A key \<open>None\<close> is in
  neither table. \<open>self.mode in ('streaming')\<close> tests a substring, the parentheses making no
  tuple.
\<close>

definition run :: "world \<Rightarrow> runner \<Rightarrow> (error + unit) \<times> string list" where
  "run w self =
     (case self_mode self of
        None \<Rightarrow> (Inl KeyError, [])
      | Some m \<Rightarrow>
     (case final_args_of self m of
        Inl e \<Rightarrow> (Inl e, [])
      | Inr final_args \<Rightarrow>
     (case self_conf_type self of
        None \<Rightarrow> (Inl KeyError, [])
      | Some ct \<Rightarrow>
     (case subcommand ct m of
        Inl e \<Rightarrow> (Inl e, [])
      | Inr sub \<Rightarrow>
          if self_sub_help self \<or> m \<notin> set SPARK_MODES then
            (check_call w (java_command self sub final_args), [java_command self sub final_args])
          else if is_substring m ''streaming'' then
            (case check_output w (fmt (self_list_apps_cmd self)) of
               Inl e \<Rightarrow> (Inl e, [])
             | Inr out \<Rightarrow>
                 (let running_apps = split_on CHR 0x0A out;
                      filtered_apps =
                        (case self_app_name self of
                           None \<Rightarrow> []
                         | Some n \<Rightarrow> get_list (running_app_map w running_apps []) n)
                  in if length filtered_apps > 0 then
                       (if length filtered_apps = 1 then (Inr (), []) else (Inl AssertionError, []))
                     else
                       (check_call w (submit_command self sub final_args),
                        [submit_command self sub final_args])))
          else
            (check_call w (submit_command self sub final_args),
             [submit_command self sub final_args])))))"


subsection \<open>A sample repository\<close>

text \<open>
  A repository \<open>repo\<close> with a \<open>teams.json\<close> and one join, after the fixtures that
  \<open>test_run.py\<close> relies on; \<open>EXECUTOR_MEMORY\<close> is set both by the join's
  \<open>modeToEnvMap\<close> and by \<open>default.common_env\<close>.
\<close>

definition teams_doc :: json where
  "teams_doc = JObj
     [(''default'', JObj
        [(''common_env'',
            JObj [(''VERSION'', JStr ''latest''), (''EXECUTOR_MEMORY'', JStr ''2G'')]),
         (''production'', JObj [(''backfill'', JObj [(''DRIVER_MEMORY'', JStr ''15G'')])])]),
      (''sample_team'', JObj
        [(''production'', JObj [(''backfill'', JObj [(''EXECUTOR_CORES'', JStr ''4'')])])])]"

definition conf_doc :: json where
  "conf_doc = JObj
     [(''metaData'', JObj
        [(''name'', JStr ''sample_team.sample_join.v1''),
         (''modeToEnvMap'', JObj [(''backfill'', JObj [(''EXECUTOR_MEMORY'', JStr ''9G'')])])])]"

text \<open>A conf document without \<open>metaData\<close>.\<close>

definition bare_doc :: json where
  "bare_doc = JObj [(''left'', JObj [])]"

text \<open>A conf document whose \<open>metaData\<close> has no \<open>modeToEnvMap\<close>.\<close>

definition plain_doc :: json where
  "plain_doc = JObj [(''metaData'', JObj [(''name'', JStr ''sample_team.plain.v1'')])]"

text \<open>A group-by of the same team.\<close>

definition gb_doc :: json where
  "gb_doc = JObj [(''metaData'', JObj [(''name'', JStr ''sample_team.gb.v1'')])]"

definition sample_world :: world where
  "sample_world =
     \<lparr>path_exists = (\<lambda>p. p = ''repo/teams.json''),
      load_json =
        (\<lambda>p. if p = ''repo/teams.json'' then Inr teams_doc
             else if p = ''repo/production/joins/sample_team/sample_join.v1'' then Inr conf_doc
             else if p = ''repo/production/joins/other_team/sample_join.v1'' then Inr conf_doc
             else if p = ''repo/production/joins/sample_team/bare.v1'' then Inr bare_doc
             else if p = ''repo/production/joins/sample_team/plain.v1'' then Inr plain_doc
             else if p = ''repo/production/group_bys/sample_team/gb.v1'' then Inr gb_doc
             else Inl OSError),
      str_of = (\<lambda>_. []),
      subprocess_check_output = (\<lambda>_. Inl CalledProcessError),
      subprocess_check_call = (\<lambda>_. Inr ()),
      json_loads = (\<lambda>_. Inl JSONDecodeError)\<rparr>"

definition sample_args :: args where
  "sample_args =
     \<lparr>repo = Some ''repo'', conf = Some ''production/joins/sample_team/sample_join.v1'',
      mode = Some ''backfill'', app_name = None, chronon_jar = None, online_jar = None,
      online_class = None\<rparr>"

text \<open>
  Variations of the sample invocation: a conf path of three segments, a team that
  \<open>teams.json\<close> does not list, the conf documents without \<open>metaData\<close> and without
  \<open>modeToEnvMap\<close>, and a mode that the join's \<open>modeToEnvMap\<close> does not list.
\<close>

definition short_args :: args where
  "short_args = sample_args\<lparr>conf := Some ''joins/sample_team/sample_join.v1''\<rparr>"

definition other_team_args :: args where
  "other_team_args = sample_args\<lparr>conf := Some ''production/joins/other_team/sample_join.v1''\<rparr>"

definition bare_args :: args where
  "bare_args = sample_args\<lparr>conf := Some ''production/joins/sample_team/bare.v1''\<rparr>"

definition plain_args :: args where
  "plain_args = sample_args\<lparr>conf := Some ''production/joins/sample_team/plain.v1''\<rparr>"

definition upload_args :: args where
  "upload_args = sample_args\<lparr>mode := Some ''upload''\<rparr>"



text \<open>The sample repository without its \<open>teams.json\<close>.\<close>

definition no_teams_world :: world where
  "no_teams_world = sample_world\<lparr>path_exists := (\<lambda>p. False)\<rparr>"

text \<open>
  A repository \<open>named\<close> whose \<open>teams.json\<close> sets \<open>APP_NAME\<close> in \<open>default.common_env\<close>,
  and an invocation \<open>--repo named --mode metadata-export --app-name my_app\<close>.
\<close>

definition named_teams_doc :: json where
  "named_teams_doc =
     JObj [(''default'', JObj [(''common_env'', JObj [(''APP_NAME'', JStr ''team_default_app'')])])]"

definition named_world :: world where
  "named_world = sample_world
     \<lparr>path_exists := (\<lambda>p. p = ''named/teams.json''),
      load_json := (\<lambda>p. if p = ''named/teams.json'' then Inr named_teams_doc else Inl OSError)\<rparr>"

definition named_args :: args where
  "named_args =
     \<lparr>repo = Some ''named'', conf = None, mode = Some ''metadata-export'',
      app_name = Some ''my_app'', chronon_jar = None, online_jar = None, online_class = None\<rparr>"

text \<open>The \<open>cli_args\<close> layer that \<open>set_runtime_env\<close> builds (empty if loading raises).\<close>

definition cli_args_of :: "world \<Rightarrow> args \<Rightarrow> (string \<times> json) list" where
  "cli_args_of w a =
     (case load_environment w a of Inl e \<Rightarrow> [] | Inr environment \<Rightarrow> cli_args environment)"

subsection \<open>A sample download and a sample streaming job\<close>

text \<open>
  A jar cached at \<open>/tmp/a.jar\<close> whose \<open>HEAD\<close> request reports 1024 bytes; the output of
  \<open>wc -c\<close> is a parameter.
\<close>

definition jar_world :: "string \<Rightarrow> world" where
  "jar_world wc_out = sample_world
     \<lparr>path_exists := (\<lambda>p. p = ''/tmp/a.jar''),
      subprocess_check_output :=
        (\<lambda>argv. if argv = [''curl'', ''-sI'', ''http://host/a.jar'']
                 then Inr (''HTTP/1.1 200 OK'' @ [CHR 0x0D, CHR 0x0A] @ ''Content-Length: 1024''
                           @ [CHR 0x0D, CHR 0x0A, CHR 0x0D, CHR 0x0A])
                 else if argv = [''wc'', ''-c'', ''/tmp/a.jar''] then Inr wc_out
                 else Inl CalledProcessError)\<rparr>"

text \<open>
  The same cached jar when the \<open>HEAD\<close> request answers without a \<open>Content-Length\<close>.
\<close>

definition headless_world :: world where
  "headless_world = sample_world
     \<lparr>path_exists := (\<lambda>p. p = ''/tmp/a.jar''),
      subprocess_check_output :=
        (\<lambda>argv. if argv = [''curl'', ''-sI'', ''http://host/a.jar'']
                 then Inr (''HTTP/1.1 200 OK'' @ [CHR 0x0D, CHR 0x0A]
                           @ ''Transfer-Encoding: chunked'' @ [CHR 0x0D, CHR 0x0A, CHR 0x0D, CHR 0x0A])
                 else if argv = [''wc'', ''-c'', ''/tmp/a.jar''] then Inr ''1024 /tmp/a.jar''
                 else Inl CalledProcessError)\<rparr>"




section \<open>Properties\<close>

subsection \<open>The retry wrapper\<close>

lemma retry_loop_all_fail:
  "\<forall>k. func k = Inl e \<Longrightarrow> attempt \<le> Suc retries \<Longrightarrow>
   retry_loop retries backoff func attempt calls sleeps =
     (Inl e, calls + (Suc retries - attempt) + 1,
      sleeps @ map (\<lambda>k. k * backoff) [Suc attempt ..< Suc (Suc retries)])"
proof (induction retries backoff func attempt calls sleeps rule: retry_loop.induct)
  case (1 retries backoff func attempt calls sleeps)
  have fails: "func calls = Inl e"
    using "1.prems" by simp
  show ?case
  proof (cases "attempt \<le> retries")
    case True
    have step: "retry_loop retries backoff func attempt calls sleeps =
        retry_loop retries backoff func (attempt + 1) (Suc calls)
          (sleeps @ [(attempt + 1) * backoff])"
      using True fails by (subst retry_loop.simps) simp
    have range: "[Suc attempt ..< Suc (Suc retries)]
        = Suc attempt # [Suc (attempt + 1) ..< Suc (Suc retries)]"
      using True by (simp add: upt_conv_Cons del: upt_Suc)
    have count: "Suc calls + (Suc retries - (attempt + 1)) + 1
        = calls + (Suc retries - attempt) + 1"
      using True by simp
    have "retry_loop retries backoff func (attempt + 1) (Suc calls)
          (sleeps @ [(attempt + 1) * backoff]) =
        (Inl e, Suc calls + (Suc retries - (attempt + 1)) + 1,
         (sleeps @ [(attempt + 1) * backoff])
           @ map (\<lambda>k. k * backoff) [Suc (attempt + 1) ..< Suc (Suc retries)])"
      using True fails "1.prems" by (intro "1.IH") simp_all
    then show ?thesis
      unfolding step range count by simp
  next
    case False
    with "1.prems" have "attempt = Suc retries" by simp
    with fails show ?thesis
      by (subst retry_loop.simps) simp
  qed
qed

lemma retry_first_success:
  "func 0 = Inr v \<Longrightarrow> retry_decorator retries backoff func = (Inr v, 1, [])"
  unfolding retry_decorator_def by (subst retry_loop.simps) simp

text \<open>
  C8 (the code at the failing input). \<open>download_jar\<close> with the unsupported Spark version
  \<open>2.1.0\<close>, the call of \<open>test_download_jar\<close>, fails its assertion on every invocation.
  The wrapper invokes it five times: four times inside the loop (\<open>attempt\<close> = 0, 1, 2, 3),
  each followed by a sleep of 50, 100, 150 and 200 seconds, and once more after the loop,
  whose exception propagates. The bound of 1 + 3 invocations is exceeded by one.
\<close>

theorem download_jar_always_failing:
  "download_jar rest ''2.1.0'' = (Inl AssertionError, 5, [50, 100, 150, 200])"
proof -
  have "\<forall>k. download_jar_body rest ''2.1.0'' k = Inl AssertionError"
    by (simp add: download_jar_body_def SUPPORTED_SPARK_def)
  from retry_loop_all_fail [OF this, of 0 3 50 0 "[]"] show ?thesis
    by (simp add: download_jar_def retry_decorator_def upt_conv_Cons)
qed

subsection \<open>Applying the layers\<close>

lemma map_of_dict_set: "map_of (dict_set k v d) = (map_of d)(k \<mapsto> v)"
  by (induction d) (auto simp: fun_eq_iff)

lemma environ_setitem_Inr:
  "environ_setitem key val env = Inr env' \<Longrightarrow> \<exists>s. val = JStr s \<and> env' = dict_set key s env"
  by (auto simp: environ_setitem_def split: json.splits if_splits)

lemma set_items_keeps:
  "map_of env X = Some v \<Longrightarrow> map_of (snd (set_items items env)) X = Some v"
proof (induction items arbitrary: env)
  case Nil
  then show ?case by simp
next
  case (Cons kv items)
  obtain key val where kv: "kv = (key, val)" by (cases kv)
  show ?case
  proof (cases "map_of env key = None \<and> val \<noteq> JNull")
    case True
    then have "key \<noteq> X" using Cons.prems by auto
    then have keep: "map_of (dict_set key s env) X = Some v" for s
      using Cons.prems by (simp add: map_of_dict_set)
    show ?thesis
    proof (cases "environ_setitem key val env")
      case (Inl e)
      with True Cons.prems show ?thesis unfolding kv by simp
    next
      case (Inr env')
      then obtain s where "env' = dict_set key s env"
        using environ_setitem_Inr by blast
      with keep have "map_of env' X = Some v" by simp
      from Cons.IH [OF this] True Inr show ?thesis unfolding kv by simp
    qed
  next
    case False
    with Cons show ?thesis unfolding kv by auto
  qed
qed

lemma set_layers_keeps:
  "map_of env X = Some v \<Longrightarrow> map_of (snd (set_layers layers env)) X = Some v"
proof (induction layers arbitrary: env)
  case Nil
  then show ?case by simp
next
  case (Cons l layers)
  show ?case
  proof (cases l)
    case (JObj d)
    obtain r env' where r: "set_items d env = (r, env')" by (cases "set_items d env")
    have keep: "map_of env' X = Some v"
      using set_items_keeps [OF Cons.prems, of d] r by simp
    show ?thesis
      using JObj r keep Cons.IH [OF keep] by (cases r) simp_all
  qed (use Cons.prems in simp_all)
qed

lemma set_items_sets:
  "map_of items X = Some (JStr s) \<Longrightarrow> map_of env X = None \<Longrightarrow>
   set_items items env = (Inr u, env') \<Longrightarrow> map_of env' X = Some s"
proof (induction items arbitrary: env)
  case Nil
  then show ?case by simp
next
  case (Cons kv items)
  obtain key val where kv: "kv = (key, val)" by (cases kv)
  show ?case
  proof (cases "key = X")
    case True
    then have val: "val = JStr s" using Cons.prems(1) kv by simp
    have run: "set_items items (dict_set X s env) = (Inr u, env')"
      using Cons.prems(2,3) True val kv
      by (auto simp: environ_setitem_def split: if_splits)
    have "map_of (dict_set X s env) X = Some s" by (simp add: map_of_dict_set)
    from set_items_keeps [OF this, of items] run show ?thesis by simp
  next
    case False
    then have rest: "map_of items X = Some (JStr s)" using Cons.prems(1) kv by simp
    show ?thesis
    proof (cases "map_of env key = None \<and> val \<noteq> JNull")
      case True
      then obtain env1 where set: "environ_setitem key val env = Inr env1"
        and run: "set_items items env1 = (Inr u, env')"
        using Cons.prems(3) kv by (cases "environ_setitem key val env") simp_all
      obtain t where "env1 = dict_set key t env"
        using environ_setitem_Inr [OF set] by blast
      then have none: "map_of env1 X = None"
        using False Cons.prems(2) by (simp add: map_of_dict_set)
      from Cons.IH [OF rest none run] show ?thesis .
    next
      case unset: False
      then have "set_items items env = (Inr u, env')"
        using Cons.prems(3) kv by auto
      from Cons.IH [OF rest Cons.prems(2) this] show ?thesis .
    qed
  qed
qed

lemma set_layers_first:
  assumes c: "map_of c X = Some (JStr s)" and env: "map_of env X = None"
    and run: "set_layers (JObj c # layers) env = (Inr u, env')"
  shows "map_of env' X = Some s"
proof -
  obtain r env1 where r: "set_items c env = (r, env1)" by (cases "set_items c env")
  from run r obtain u1 where ok: "r = Inr u1" and rest: "set_layers layers env1 = (Inr u, env')"
    by (cases r) simp_all
  have "map_of env1 X = Some s"
    using set_items_sets [OF c env] r ok by simp
  from set_layers_keeps [OF this, of layers] rest show ?thesis by simp
qed

lemma sample_environment:
  "load_environment sample_world sample_args =
     Inr \<lparr>common_env = JObj [(''VERSION'', JStr ''latest''), (''EXECUTOR_MEMORY'', JStr ''2G'')],
          conf_env = JObj [(''EXECUTOR_MEMORY'', JStr ''9G'')],
          default_env = JObj [(''DRIVER_MEMORY'', JStr ''15G'')],
          team_env = JObj [(''EXECUTOR_CORES'', JStr ''4'')],
          cli_args =
            [(''APP_NAME'', JStr ''chronon_joins_backfill_production_sample_team.sample_join.v1''),
             (''CHRONON_CONF_PATH'', JStr ''repo/production/joins/sample_team/sample_join.v1''),
             (''CHRONON_DRIVER_JAR'', JNull), (''CHRONON_ONLINE_JAR'', JNull),
             (''CHRONON_ONLINE_CLASS'', JNull)]\<rparr>"
  by code_simp

lemma sample_run:
  "set_runtime_env sample_world sample_args [] =
     (Inr (),
      [(''EXECUTOR_MEMORY'', ''9G''), (''EXECUTOR_CORES'', ''4''), (''DRIVER_MEMORY'', ''15G''),
       (''VERSION'', ''latest''),
       (''APP_NAME'', ''chronon_joins_backfill_production_sample_team.sample_join.v1''),
       (''CHRONON_CONF_PATH'', ''repo/production/joins/sample_team/sample_join.v1'')])"
  by code_simp

text \<open>
  C1 (as the claim states it, refuted). In the sample repository \<open>EXECUTOR_MEMORY\<close> is
  defined by \<open>conf_env\<close> (\<open>9G\<close>) and by \<open>common_env\<close> (\<open>2G\<close>) and by no other layer, and
  the process environment is empty; \<open>set_runtime_env\<close> applies the \<open>conf_env\<close> value, not
  the \<open>common_env\<close> value.
\<close>

theorem common_env_does_not_beat_conf_env:
  "load_environment sample_world sample_args =
     Inr \<lparr>common_env = JObj [(''VERSION'', JStr ''latest''), (''EXECUTOR_MEMORY'', JStr ''2G'')],
          conf_env = JObj [(''EXECUTOR_MEMORY'', JStr ''9G'')],
          default_env = JObj [(''DRIVER_MEMORY'', JStr ''15G'')],
          team_env = JObj [(''EXECUTOR_CORES'', JStr ''4'')],
          cli_args =
            [(''APP_NAME'', JStr ''chronon_joins_backfill_production_sample_team.sample_join.v1''),
             (''CHRONON_CONF_PATH'', JStr ''repo/production/joins/sample_team/sample_join.v1''),
             (''CHRONON_DRIVER_JAR'', JNull), (''CHRONON_ONLINE_JAR'', JNull),
             (''CHRONON_ONLINE_CLASS'', JNull)]\<rparr>
   \<and> fst (set_runtime_env sample_world sample_args []) = Inr ()
   \<and> map_of (snd (set_runtime_env sample_world sample_args [])) ''EXECUTOR_MEMORY'' = Some ''9G''
   \<and> map_of (snd (set_runtime_env sample_world sample_args [])) ''EXECUTOR_MEMORY'' \<noteq> Some ''2G''"
  unfolding sample_environment sample_run by simp

text \<open>
  C1 (amended). The layers are applied in the order \<open>conf_env\<close>, \<open>team_env\<close>,
  \<open>default_env\<close>, \<open>common_env\<close>, \<open>cli_args\<close> and a variable once set is not overwritten,
  so the first layer that defines a variable wins: for every variable \<open>X\<close> that \<open>conf_env\<close>
  and \<open>common_env\<close> both define with string values and that the process environment does
  not define, when \<open>set_runtime_env\<close> returns the environment maps \<open>X\<close> to the \<open>conf_env\<close>
  value.
\<close>

theorem conf_env_beats_common_env:
  assumes "load_environment w a = Inr environment"
    and "conf_env environment = JObj c" and "map_of c X = Some (JStr v)"
    and "common_env environment = JObj cm" and "map_of cm X = Some (JStr v')"
    and "map_of env X = None"
    and "set_runtime_env w a env = (Inr (), env')"
  shows "map_of env' X = Some v"
proof -
  have "set_layers (order environment) env = (Inr (), env')"
    using assms(1,7) unfolding set_runtime_env_def by (simp split: sum.splits)
  then have "set_layers (JObj c # tl (order environment)) env = (Inr (), env')"
    using assms(2) by (simp add: order_def)
  from set_layers_first [OF assms(3,6) this] show ?thesis .
qed

theorem conf_env_beats_common_env_witness:
  "load_environment sample_world sample_args =
     Inr \<lparr>common_env = JObj [(''VERSION'', JStr ''latest''), (''EXECUTOR_MEMORY'', JStr ''2G'')],
          conf_env = JObj [(''EXECUTOR_MEMORY'', JStr ''9G'')],
          default_env = JObj [(''DRIVER_MEMORY'', JStr ''15G'')],
          team_env = JObj [(''EXECUTOR_CORES'', JStr ''4'')],
          cli_args =
            [(''APP_NAME'', JStr ''chronon_joins_backfill_production_sample_team.sample_join.v1''),
             (''CHRONON_CONF_PATH'', JStr ''repo/production/joins/sample_team/sample_join.v1''),
             (''CHRONON_DRIVER_JAR'', JNull), (''CHRONON_ONLINE_JAR'', JNull),
             (''CHRONON_ONLINE_CLASS'', JNull)]\<rparr>
   \<and> map_of [(''EXECUTOR_MEMORY'', JStr ''9G'')] ''EXECUTOR_MEMORY'' = Some (JStr ''9G'')
   \<and> map_of [(''VERSION'', JStr ''latest''), (''EXECUTOR_MEMORY'', JStr ''2G'')] ''EXECUTOR_MEMORY''
       = Some (JStr ''2G'')
   \<and> map_of ([] :: environ) ''EXECUTOR_MEMORY'' = None
   \<and> set_runtime_env sample_world sample_args [] =
     (Inr (),
      [(''EXECUTOR_MEMORY'', ''9G''), (''EXECUTOR_CORES'', ''4''), (''DRIVER_MEMORY'', ''15G''),
       (''VERSION'', ''latest''),
       (''APP_NAME'', ''chronon_joins_backfill_production_sample_team.sample_join.v1''),
       (''CHRONON_CONF_PATH'', ''repo/production/joins/sample_team/sample_join.v1'')])
   \<and> map_of [(''EXECUTOR_MEMORY'', ''9G''), (''EXECUTOR_CORES'', ''4''), (''DRIVER_MEMORY'', ''15G''),
       (''VERSION'', ''latest''),
       (''APP_NAME'', ''chronon_joins_backfill_production_sample_team.sample_join.v1''),
       (''CHRONON_CONF_PATH'', ''repo/production/joins/sample_team/sample_join.v1'')]
       ''EXECUTOR_MEMORY'' = Some ''9G''"
  using conf_env_beats_common_env [OF sample_environment _ _ _ _ _ sample_run,
      of "[(''EXECUTOR_MEMORY'', JStr ''9G'')]" "''EXECUTOR_MEMORY''" "''9G''"
         "[(''VERSION'', JStr ''latest''), (''EXECUTOR_MEMORY'', JStr ''2G'')]" "''2G''"]
    sample_environment sample_run
  by simp

text \<open>
  C2. A variable that the process environment defines before \<open>set_runtime_env\<close> runs keeps
  its value, whatever the layers define for it; this holds when the function returns and also
  when it raises.
\<close>

theorem set_runtime_env_keeps:
  "map_of env X = Some v \<Longrightarrow> map_of (snd (set_runtime_env w a env)) X = Some v"
  unfolding set_runtime_env_def
  by (auto split: sum.splits simp: set_layers_keeps)

theorem set_runtime_env_keeps_witness:
  "map_of [(''EXECUTOR_MEMORY'', ''1G'')] ''EXECUTOR_MEMORY'' = Some ''1G''
   \<and> fst (set_runtime_env sample_world sample_args [(''EXECUTOR_MEMORY'', ''1G'')]) = Inr ()
   \<and> map_of (snd (set_runtime_env sample_world sample_args [(''EXECUTOR_MEMORY'', ''1G'')]))
        ''EXECUTOR_MEMORY'' = Some ''1G''"
proof -
  have pre: "map_of [(''EXECUTOR_MEMORY'', ''1G'')] ''EXECUTOR_MEMORY'' = Some ''1G''"
    by simp
  have ok: "fst (set_runtime_env sample_world sample_args [(''EXECUTOR_MEMORY'', ''1G'')]) = Inr ()"
    by code_simp
  show ?thesis
    using pre ok set_runtime_env_keeps [OF pre, of sample_world sample_args] by simp
qed

subsection \<open>The conf path\<close>

lemma unpack_conf_short:
  "length (split_on CHR ''/'' c) < 4 \<Longrightarrow> unpack_conf c = Inl ValueError"
  unfolding unpack_conf_def last4_def
  by (auto split: list.splits)

lemma unpack_conf_long:
  assumes "4 \<le> length (split_on CHR ''/'' c)"
  shows "\<exists>s. unpack_conf c = Inr s"
proof -
  have "length (last4 (split_on CHR ''/'' c)) = 4"
    using assms by (simp add: last4_def)
  then show ?thesis
    unfolding unpack_conf_def
    by (auto split: list.splits)
qed

text \<open>
  C3. When a repo root, a conf path and a mode are supplied (all three true in Python's
  sense), \<open>teams.json\<close> exists under the repo root and the conf path has fewer than four
  \<open>/\<close>-separated segments, \<open>set_runtime_env\<close> raises and leaves the environment as it
  was; no segment is defaulted. If \<open>teams.json\<close> loads and its \<open>default.common_env\<close> can be
  read, the exception is the \<open>ValueError\<close> of the unpacking at line 196; otherwise it is the
  earlier exception of loading the teams document.
\<close>

theorem short_conf_path_fails:
  assumes "repo a = Some r" and "r \<noteq> []" and "conf a = Some c" and "c \<noteq> []"
    and "mode a = Some m" and "m \<noteq> []"
    and "path_exists w (path_join r ''teams.json'')"
    and "length (split_on CHR ''/'' c) < 4"
  shows "(\<exists>e. set_runtime_env w a env = (Inl e, env))
    \<and> (\<forall>teams_json ce. load_json w (path_join r ''teams.json'') = Inr teams_json
          \<longrightarrow> common_env_of teams_json = Inr ce
          \<longrightarrow> set_runtime_env w a env = (Inl ValueError, env))"
proof -
  have layers: "conf_layers w r c m tj e0 = Inl ValueError" for tj e0
    using unpack_conf_short [OF assms(8)] by (simp add: conf_layers_def)
  have "\<exists>e. repo_layers w a empty_environment = Inl e"
    using assms(1-7) layers
    by (auto simp: repo_layers_def Let_def split: sum.splits)
  then have first: "\<exists>e. set_runtime_env w a env = (Inl e, env)"
    by (auto simp: set_runtime_env_def load_environment_def)
  have second: "set_runtime_env w a env = (Inl ValueError, env)"
    if "load_json w (path_join r ''teams.json'') = Inr teams_json"
      and "common_env_of teams_json = Inr ce" for teams_json ce
    using assms(1-7) layers that
    by (simp add: set_runtime_env_def load_environment_def repo_layers_def Let_def)
  from first second show ?thesis by blast
qed

theorem short_conf_path_fails_witness:
  "repo short_args = Some ''repo'' \<and> conf short_args = Some ''joins/sample_team/sample_join.v1''
   \<and> mode short_args = Some ''backfill''
   \<and> path_exists sample_world (path_join ''repo'' ''teams.json'')
   \<and> length (split_on CHR ''/'' ''joins/sample_team/sample_join.v1'') < 4
   \<and> load_json sample_world (path_join ''repo'' ''teams.json'') = Inr teams_doc
   \<and> common_env_of teams_doc
        = Inr (JObj [(''VERSION'', JStr ''latest''), (''EXECUTOR_MEMORY'', JStr ''2G'')])
   \<and> set_runtime_env sample_world short_args [(''HOME'', ''/root'')]
        = (Inl ValueError, [(''HOME'', ''/root'')])"
proof -
  have r: "repo short_args = Some ''repo''"
    and c: "conf short_args = Some ''joins/sample_team/sample_join.v1''"
    and m: "mode short_args = Some ''backfill''"
    by (simp_all add: short_args_def sample_args_def)
  have ex: "path_exists sample_world (path_join ''repo'' ''teams.json'')"
    by (simp add: sample_world_def path_join_def)
  have len: "length (split_on CHR ''/'' ''joins/sample_team/sample_join.v1'') < 4"
    by simp
  have teams: "load_json sample_world (path_join ''repo'' ''teams.json'') = Inr teams_doc"
    by (simp add: sample_world_def path_join_def)
  have ce: "common_env_of teams_doc
        = Inr (JObj [(''VERSION'', JStr ''latest''), (''EXECUTOR_MEMORY'', JStr ''2G'')])"
    by (simp add: common_env_of_def teams_doc_def get_or_empty_def)
  have "set_runtime_env sample_world short_args [(''HOME'', ''/root'')]
        = (Inl ValueError, [(''HOME'', ''/root'')])"
    using short_conf_path_fails [OF r _ c _ m _ ex len, of "[(''HOME'', ''/root'')]"] teams ce
    by simp
  with r c m ex len teams ce show ?thesis by blast
qed

subsection \<open>The layers read from the documents\<close>

text \<open>
  C6 (as the claim states it, refuted). The sample \<open>teams.json\<close> has no entry for
  \<open>other_team\<close>: the extraction of \<open>team_env\<close> raises \<open>KeyError\<close> instead of yielding an
  empty mapping, and \<open>set_runtime_env\<close> fails with it.
\<close>

theorem team_env_absent_team_counterexample:
  "team_env_of teams_doc ''other_team'' ''production'' ''backfill'' = Inl KeyError
   \<and> team_env_of teams_doc ''other_team'' ''production'' ''backfill'' \<noteq> Inr (JObj [])
   \<and> set_runtime_env sample_world other_team_args [] = (Inl KeyError, [])"
  by code_simp

text \<open>
  C6 (amended). For a teams document that has an entry for the team, \<open>team_env\<close> is the
  empty mapping whenever the context is absent from the team's entry, or the mode is absent
  from the context's entry. When the team is absent from the teams document, the extraction
  raises \<open>KeyError\<close>, and \<open>set_runtime_env\<close>, given a repo root, a conf path under that
  team and a mode, with \<open>teams.json\<close> present, fails and leaves the environment as it
  was: with that \<open>KeyError\<close> once \<open>common_env\<close>, the conf document and \<open>conf_env\<close> have
  been read, with the earlier exception otherwise.
\<close>

theorem team_env_absent_path:
  assumes teams: "teams_json = JObj teams"
  shows "(\<forall>t. map_of teams team = Some (JObj t) \<longrightarrow>
            (map_of t context = None \<longrightarrow> team_env_of teams_json team context m = Inr (JObj []))
          \<and> (\<forall>c. map_of t context = Some (JObj c) \<longrightarrow> map_of c m = None
                \<longrightarrow> team_env_of teams_json team context m = Inr (JObj [])))
    \<and> (map_of teams team = None \<longrightarrow>
          team_env_of teams_json team context m = Inl KeyError
        \<and> (repo a = Some r \<and> r \<noteq> [] \<and> conf a = Some c \<and> c \<noteq> [] \<and> mode a = Some m \<and> m \<noteq> []
             \<and> path_exists w (path_join r ''teams.json'')
             \<and> load_json w (path_join r ''teams.json'') = Inr teams_json
             \<and> unpack_conf c = Inr (context, conf_type, team)
            \<longrightarrow> (\<exists>e. set_runtime_env w a env = (Inl e, env))
              \<and> (\<forall>cme conf_json ce. common_env_of teams_json = Inr cme
                    \<longrightarrow> load_json w (path_join r c) = Inr conf_json
                    \<longrightarrow> conf_env_of conf_json m = Inr ce
                    \<longrightarrow> set_runtime_env w a env = (Inl KeyError, env))))"
proof -
  have present: "team_env_of teams_json team context m = Inr (JObj [])"
    if "map_of teams team = Some (JObj t)"
      and "map_of t context = None \<or> (\<exists>c. map_of t context = Some (JObj c) \<and> map_of c m = None)"
    for t
    using that teams
    by (auto simp: team_env_of_def subscript_def getitem_def get_or_empty_def)
  have absent: "team_env_of teams_json team context m = Inl KeyError"
    if "map_of teams team = None"
    using that teams by (simp add: team_env_of_def subscript_def getitem_def)
  have fails: "(\<exists>e. set_runtime_env w a env = (Inl e, env))
      \<and> (\<forall>cme conf_json ce. common_env_of teams_json = Inr cme
            \<longrightarrow> load_json w (path_join r c) = Inr conf_json
            \<longrightarrow> conf_env_of conf_json m = Inr ce
            \<longrightarrow> set_runtime_env w a env = (Inl KeyError, env))"
    if none: "map_of teams team = None"
      and given: "repo a = Some r" "r \<noteq> []" "conf a = Some c" "c \<noteq> []"
        "mode a = Some m" "m \<noteq> []"
        "path_exists w (path_join r ''teams.json'')"
        "load_json w (path_join r ''teams.json'') = Inr teams_json"
        "unpack_conf c = Inr (context, conf_type, team)"
  proof -
    have layers: "\<exists>e. conf_layers w r c m teams_json e0 = Inl e" for e0
      using given(9) absent [OF none]
      by (auto simp: conf_layers_def Let_def split: sum.splits)
    have key: "conf_layers w r c m teams_json e0 = Inl KeyError"
      if "load_json w (path_join r c) = Inr conf_json" and "conf_env_of conf_json m = Inr ce"
      for e0 conf_json ce
      using given(9) absent [OF none] that
      by (simp add: conf_layers_def Let_def)
    have "\<exists>e. repo_layers w a empty_environment = Inl e"
      using given(1-8) layers
      by (auto simp: repo_layers_def Let_def split: sum.splits)
    then have first: "\<exists>e. set_runtime_env w a env = (Inl e, env)"
      by (auto simp: set_runtime_env_def load_environment_def)
    have second: "set_runtime_env w a env = (Inl KeyError, env)"
      if cme: "common_env_of teams_json = Inr cme"
        and cj: "load_json w (path_join r c) = Inr conf_json"
        and ce: "conf_env_of conf_json m = Inr ce" for cme conf_json ce
      using given(1-8) cme key [OF cj ce]
      by (simp add: set_runtime_env_def load_environment_def repo_layers_def Let_def)
    from first second show ?thesis by blast
  qed
  from present absent fails show ?thesis by blast
qed

theorem team_env_absent_path_witness:
  "team_env_of teams_doc ''sample_team'' ''dev'' ''backfill'' = Inr (JObj [])
   \<and> team_env_of teams_doc ''sample_team'' ''production'' ''upload'' = Inr (JObj [])
   \<and> team_env_of teams_doc ''other_team'' ''production'' ''backfill'' = Inl KeyError
   \<and> set_runtime_env sample_world other_team_args [(''HOME'', ''/root'')]
        = (Inl KeyError, [(''HOME'', ''/root'')])"
proof -
  let ?t = "[(''production'', JObj [(''backfill'', JObj [(''EXECUTOR_CORES'', JStr ''4'')])])]"
  let ?teams = "[(''default'', JObj
        [(''common_env'',
            JObj [(''VERSION'', JStr ''latest''), (''EXECUTOR_MEMORY'', JStr ''2G'')]),
         (''production'', JObj [(''backfill'', JObj [(''DRIVER_MEMORY'', JStr ''15G'')])])]),
      (''sample_team'', JObj ?t)]"
  have doc: "teams_doc = JObj ?teams"
    by (simp add: teams_doc_def)
  have team: "map_of ?teams ''sample_team'' = Some (JObj ?t)"
    by simp
  have "map_of ?t ''dev'' = None"
    by simp
  with team team_env_absent_path [OF doc, of "''sample_team''" "''dev''" "''backfill''"]
  have one: "team_env_of teams_doc ''sample_team'' ''dev'' ''backfill'' = Inr (JObj [])"
    by blast
  have "map_of ?t ''production'' = Some (JObj [(''backfill'', JObj [(''EXECUTOR_CORES'', JStr ''4'')])])"
    and "map_of [(''backfill'', JObj [(''EXECUTOR_CORES'', JStr ''4'')])] ''upload'' = None"
    by simp_all
  with team team_env_absent_path [OF doc, of "''sample_team''" "''production''" "''upload''"]
  have two: "team_env_of teams_doc ''sample_team'' ''production'' ''upload'' = Inr (JObj [])"
    by blast
  have none: "map_of ?teams ''other_team'' = None"
    by simp
  have given: "repo other_team_args = Some ''repo''" "''repo'' \<noteq> []"
      "conf other_team_args = Some ''production/joins/other_team/sample_join.v1''"
      "''production/joins/other_team/sample_join.v1'' \<noteq> []"
      "mode other_team_args = Some ''backfill''" "''backfill'' \<noteq> []"
      "path_exists sample_world (path_join ''repo'' ''teams.json'')"
      "load_json sample_world (path_join ''repo'' ''teams.json'') = Inr teams_doc"
    by (simp_all add: other_team_args_def sample_args_def sample_world_def path_join_def)
  have unpack: "unpack_conf ''production/joins/other_team/sample_join.v1''
      = Inr (''production'', ''joins'', ''other_team'')"
    by code_simp
  have cme: "common_env_of teams_doc
        = Inr (JObj [(''VERSION'', JStr ''latest''), (''EXECUTOR_MEMORY'', JStr ''2G'')])"
    by (simp add: common_env_of_def teams_doc_def get_or_empty_def)
  have cj: "load_json sample_world
       (path_join ''repo'' ''production/joins/other_team/sample_join.v1'') = Inr conf_doc"
    by (simp add: sample_world_def path_join_def)
  have ce: "conf_env_of conf_doc ''backfill'' = Inr (JObj [(''EXECUTOR_MEMORY'', JStr ''9G'')])"
    by code_simp
  from none given unpack cme cj ce
    team_env_absent_path [OF doc, of "''other_team''" "''production''" "''backfill''"
      other_team_args "''repo''" "''production/joins/other_team/sample_join.v1''" sample_world
      "''joins''" "[(''HOME'', ''/root'')]"]
  have three: "team_env_of teams_doc ''other_team'' ''production'' ''backfill'' = Inl KeyError"
    and four: "set_runtime_env sample_world other_team_args [(''HOME'', ''/root'')]
        = (Inl KeyError, [(''HOME'', ''/root'')])"
    by blast+
  from one two three four show ?thesis by blast
qed

text \<open>
  C10 (as the claim states it, refuted). A repo root, a conf path and a mode are supplied
  and the conf document \<open>bare.v1\<close> has no \<open>metaData\<close>, but the repo root has no
  \<open>teams.json\<close>: the conf document is not read, and \<open>set_runtime_env\<close> returns with
  \<open>conf_env\<close> empty instead of failing.
\<close>

theorem missing_metaData_without_teams_counterexample:
  "repo bare_args = Some ''repo''
   \<and> conf bare_args = Some ''production/joins/sample_team/bare.v1''
   \<and> mode bare_args = Some ''backfill''
   \<and> load_json no_teams_world (path_join ''repo'' ''production/joins/sample_team/bare.v1'')
        = Inr (JObj [(''left'', JObj [])])
   \<and> map_of [(''left'', JObj [])] ''metaData'' = None
   \<and> \<not> path_exists no_teams_world (path_join ''repo'' ''teams.json'')
   \<and> load_environment no_teams_world bare_args =
        Inr \<lparr>common_env = JObj [], conf_env = JObj [], default_env = JObj [], team_env = JObj [],
             cli_args =
               [(''CHRONON_DRIVER_JAR'', JNull), (''CHRONON_ONLINE_JAR'', JNull),
                (''CHRONON_ONLINE_CLASS'', JNull)]\<rparr>
   \<and> set_runtime_env no_teams_world bare_args [] = (Inr (), [])"
  by code_simp

text \<open>
  C10 (amended). When a repo root, a conf path and a mode are supplied, \<open>teams.json\<close>
  exists under the repo root, and the conf document lacks the top-level \<open>metaData\<close> key,
  reading \<open>conf_env\<close> raises and \<open>set_runtime_env\<close> fails, leaving the environment as it
  was, rather than treating \<open>conf_env\<close> as empty; the exception is the \<open>AttributeError\<close> of
  calling \<open>get\<close> on \<open>None\<close> once \<open>teams.json\<close> has loaded with a readable
  \<open>default.common_env\<close> and the conf path has four segments. If \<open>metaData\<close> is an object
  without \<open>modeToEnvMap\<close>, or \<open>modeToEnvMap\<close> is an object without the mode,
  \<open>conf_env\<close> is the empty mapping.
\<close>

theorem conf_env_requires_metaData:
  assumes "repo a = Some r" and "r \<noteq> []" and "conf a = Some c" and "c \<noteq> []"
    and "mode a = Some m" and "m \<noteq> []"
    and "load_json w (path_join r c) = Inr conf_json"
  shows "(path_exists w (path_join r ''teams.json'')
            \<longrightarrow> (\<forall>d. conf_json = JObj d \<longrightarrow> map_of d ''metaData'' = None)
            \<longrightarrow> (\<exists>e. conf_env_of conf_json m = Inl e)
              \<and> (\<exists>e. set_runtime_env w a env = (Inl e, env))
              \<and> (\<forall>teams_json ce. load_json w (path_join r ''teams.json'') = Inr teams_json
                    \<longrightarrow> common_env_of teams_json = Inr ce
                    \<longrightarrow> 4 \<le> length (split_on CHR ''/'' c)
                    \<longrightarrow> set_runtime_env w a env = (Inl AttributeError, env)))
    \<and> (\<forall>d md. conf_json = JObj d \<longrightarrow> map_of d ''metaData'' = Some (JObj md)
          \<longrightarrow> (map_of md ''modeToEnvMap'' = None
               \<or> (\<exists>envs. map_of md ''modeToEnvMap'' = Some (JObj envs) \<and> map_of envs m = None))
          \<longrightarrow> conf_env_of conf_json m = Inr (JObj [])
            \<and> (\<forall>environment. load_environment w a = Inr environment
                  \<longrightarrow> conf_env environment = JObj []))"
proof -
  have attr: "conf_env_of conf_json m = Inl AttributeError"
    if "\<forall>d. conf_json = JObj d \<longrightarrow> map_of d ''metaData'' = None"
    using that
    by (cases conf_json) (simp_all add: conf_env_of_def get_or_none_def get_or_empty_def)
  have fails: "(\<exists>e. set_runtime_env w a env = (Inl e, env))
      \<and> (\<forall>teams_json ce. load_json w (path_join r ''teams.json'') = Inr teams_json
            \<longrightarrow> common_env_of teams_json = Inr ce
            \<longrightarrow> 4 \<le> length (split_on CHR ''/'' c)
            \<longrightarrow> set_runtime_env w a env = (Inl AttributeError, env))"
    if ex: "path_exists w (path_join r ''teams.json'')"
      and lacks: "\<forall>d. conf_json = JObj d \<longrightarrow> map_of d ''metaData'' = None"
  proof -
    have layers: "\<exists>e. conf_layers w r c m tj e0 = Inl e" for tj e0
      using attr [OF lacks] assms(7)
      by (auto simp: conf_layers_def Let_def split: sum.splits)
    have "\<exists>e. repo_layers w a empty_environment = Inl e"
      using assms(1-6) ex layers
      by (auto simp: repo_layers_def Let_def split: sum.splits)
    then have first: "\<exists>e. set_runtime_env w a env = (Inl e, env)"
      by (auto simp: set_runtime_env_def load_environment_def)
    have second: "set_runtime_env w a env = (Inl AttributeError, env)"
      if tj: "load_json w (path_join r ''teams.json'') = Inr teams_json"
        and cme: "common_env_of teams_json = Inr ce"
        and long: "4 \<le> length (split_on CHR ''/'' c)"
      for teams_json ce
    proof -
      obtain s where s: "unpack_conf c = Inr s"
        using unpack_conf_long [OF long] by blast
      have "conf_layers w r c m teams_json e0 = Inl AttributeError" for e0
        using s assms(7) attr [OF lacks] by (cases s) (simp add: conf_layers_def Let_def)
      then show ?thesis
        using assms(1-6) ex tj cme
        by (simp add: set_runtime_env_def load_environment_def repo_layers_def Let_def)
    qed
    from first second show ?thesis by blast
  qed
  have empty: "conf_env environment = JObj []"
    if ce: "conf_env_of conf_json m = Inr (JObj [])"
      and env: "load_environment w a = Inr environment" for environment
  proof -
    obtain e1 where e1: "repo_layers w a empty_environment = Inr e1"
      and environment: "environment = cli_layer a e1"
      using env by (auto simp: load_environment_def split: sum.splits)
    have "conf_env e1 = JObj []"
      using e1 assms(1-7) ce
      by (auto simp: repo_layers_def conf_layers_def empty_environment_def Let_def
               split: sum.splits if_splits prod.splits)
    then show ?thesis
      by (simp add: environment cli_layer_def Let_def)
  qed
  have mapped: "conf_env_of conf_json m = Inr (JObj [])"
    if "conf_json = JObj d" and "map_of d ''metaData'' = Some (JObj md)"
      and "map_of md ''modeToEnvMap'' = None
        \<or> (\<exists>envs. map_of md ''modeToEnvMap'' = Some (JObj envs) \<and> map_of envs m = None)"
    for d md
    using that by (auto simp: conf_env_of_def get_or_none_def get_or_empty_def)
  show ?thesis
    using attr fails empty mapped by blast
qed

theorem conf_env_requires_metaData_witness:
  "set_runtime_env sample_world bare_args [] = (Inl AttributeError, [])
   \<and> conf_env_of bare_doc ''backfill'' = Inl AttributeError
   \<and> conf_env_of plain_doc ''backfill'' = Inr (JObj [])
   \<and> conf_env_of conf_doc ''upload'' = Inr (JObj [])
   \<and> (\<exists>environment. load_environment sample_world plain_args = Inr environment
         \<and> conf_env environment = JObj [])
   \<and> (\<exists>environment. load_environment sample_world upload_args = Inr environment
         \<and> conf_env environment = JObj [])"
proof -
  have ex: "path_exists sample_world (path_join ''repo'' ''teams.json'')"
    and teams: "load_json sample_world (path_join ''repo'' ''teams.json'') = Inr teams_doc"
    by (simp_all add: sample_world_def path_join_def)
  have ce: "common_env_of teams_doc
        = Inr (JObj [(''VERSION'', JStr ''latest''), (''EXECUTOR_MEMORY'', JStr ''2G'')])"
    by (simp add: common_env_of_def teams_doc_def get_or_empty_def)
  have bare: "repo bare_args = Some ''repo''"
      "conf bare_args = Some ''production/joins/sample_team/bare.v1''"
      "mode bare_args = Some ''backfill''"
      "load_json sample_world (path_join ''repo'' ''production/joins/sample_team/bare.v1'')
         = Inr bare_doc"
    by (simp_all add: bare_args_def sample_args_def sample_world_def path_join_def)
  have lacks: "\<forall>d. bare_doc = JObj d \<longrightarrow> map_of d ''metaData'' = None"
    by (simp add: bare_doc_def)
  have long: "4 \<le> length (split_on CHR ''/'' ''production/joins/sample_team/bare.v1'')"
    by simp
  have attr: "conf_env_of bare_doc ''backfill'' = Inl AttributeError"
    by code_simp
  have "set_runtime_env sample_world bare_args [] = (Inl AttributeError, [])"
    using conf_env_requires_metaData [OF bare(1) _ bare(2) _ bare(3) _ bare(4), of "[]"]
      ex lacks teams ce long
    by blast
  with attr have one: "conf_env_of bare_doc ''backfill'' = Inl AttributeError
      \<and> set_runtime_env sample_world bare_args [] = (Inl AttributeError, [])"
    by simp
  have plain: "repo plain_args = Some ''repo''"
      "conf plain_args = Some ''production/joins/sample_team/plain.v1''"
      "mode plain_args = Some ''backfill''"
      "load_json sample_world (path_join ''repo'' ''production/joins/sample_team/plain.v1'')
         = Inr (JObj [(''metaData'', JObj [(''name'', JStr ''sample_team.plain.v1'')])])"
      "map_of [(''metaData'', JObj [(''name'', JStr ''sample_team.plain.v1'')])] ''metaData''
         = Some (JObj [(''name'', JStr ''sample_team.plain.v1'')])"
      "map_of [(''name'', JStr ''sample_team.plain.v1'')] ''modeToEnvMap'' = None"
    by (simp_all add: plain_args_def sample_args_def sample_world_def path_join_def plain_doc_def)
  have "\<not> isl (load_environment sample_world plain_args)"
    by code_simp
  then have plain_ok: "\<exists>environment. load_environment sample_world plain_args = Inr environment"
    by (cases "load_environment sample_world plain_args") simp_all
  have two: "conf_env_of plain_doc ''backfill'' = Inr (JObj [])
      \<and> (\<exists>environment. load_environment sample_world plain_args = Inr environment
            \<and> conf_env environment = JObj [])"
    using conf_env_requires_metaData [OF plain(1) _ plain(2) _ plain(3) _ plain(4), of "[]"]
      plain(5,6) plain_ok
    by (auto simp: plain_doc_def)
  have upload: "repo upload_args = Some ''repo''"
      "conf upload_args = Some ''production/joins/sample_team/sample_join.v1''"
      "mode upload_args = Some ''upload''"
      "load_json sample_world (path_join ''repo'' ''production/joins/sample_team/sample_join.v1'')
         = Inr (JObj [(''metaData'', JObj
              [(''name'', JStr ''sample_team.sample_join.v1''),
               (''modeToEnvMap'',
                  JObj [(''backfill'', JObj [(''EXECUTOR_MEMORY'', JStr ''9G'')])])])])"
      "map_of [(''metaData'', JObj
              [(''name'', JStr ''sample_team.sample_join.v1''),
               (''modeToEnvMap'',
                  JObj [(''backfill'', JObj [(''EXECUTOR_MEMORY'', JStr ''9G'')])])])] ''metaData''
         = Some (JObj [(''name'', JStr ''sample_team.sample_join.v1''),
               (''modeToEnvMap'',
                  JObj [(''backfill'', JObj [(''EXECUTOR_MEMORY'', JStr ''9G'')])])])"
      "map_of [(''name'', JStr ''sample_team.sample_join.v1''),
               (''modeToEnvMap'',
                  JObj [(''backfill'', JObj [(''EXECUTOR_MEMORY'', JStr ''9G'')])])] ''modeToEnvMap''
         = Some (JObj [(''backfill'', JObj [(''EXECUTOR_MEMORY'', JStr ''9G'')])])"
      "map_of [(''backfill'', JObj [(''EXECUTOR_MEMORY'', JStr ''9G'')])] ''upload'' = None"
    by (simp_all add: upload_args_def sample_args_def sample_world_def path_join_def conf_doc_def)
  have "\<not> isl (load_environment sample_world upload_args)"
    by code_simp
  then have upload_ok: "\<exists>environment. load_environment sample_world upload_args = Inr environment"
    by (cases "load_environment sample_world upload_args") simp_all
  have three: "conf_env_of conf_doc ''upload'' = Inr (JObj [])
      \<and> (\<exists>environment. load_environment sample_world upload_args = Inr environment
            \<and> conf_env environment = JObj [])"
    using conf_env_requires_metaData [OF upload(1) _ upload(2) _ upload(3) _ upload(4), of "[]"]
      upload(5,6,7) upload_ok
    by (auto simp: conf_doc_def)
  from one two three show ?thesis by blast
qed

subsection \<open>The application name\<close>

lemma set_items_absent:
  "map_of items X = None \<Longrightarrow> map_of env X = None
     \<Longrightarrow> map_of (snd (set_items items env)) X = None"
proof (induction items arbitrary: env)
  case Nil
  then show ?case by simp
next
  case (Cons kv items)
  obtain key val where kv: "kv = (key, val)" by (cases kv)
  have key: "key \<noteq> X" and rest: "map_of items X = None"
    using Cons.prems(1) kv by (auto split: if_splits)
  have none: "map_of (dict_set key s env) X = None" for s
    using key Cons.prems(2) by (simp add: map_of_dict_set)
  show ?case
  proof (cases "environ_setitem key val env")
    case (Inl e)
    with Cons.IH [OF rest Cons.prems(2)] Cons.prems(2) show ?thesis
      unfolding kv by simp
  next
    case (Inr env1)
    then obtain s where "env1 = dict_set key s env"
      using environ_setitem_Inr by blast
    with none have "map_of env1 X = None" by simp
    from Cons.IH [OF rest this] Cons.IH [OF rest Cons.prems(2)] Inr show ?thesis
      unfolding kv by simp
  qed
qed

text \<open>
  What lines 209-219 store under \<open>cli_args.APP_NAME\<close>: the explicit name if one is given,
  else the literal for \<open>metadata-export\<close>, else the template filled from the conf path and
  \<open>metaData.name\<close> (if the conf was loaded).
\<close>

lemma cli_layer_APP_NAME:
  "map_of (cli_args (cli_layer a e0)) ''APP_NAME'' =
     (if truthy (app_name a) then Some (opt_json (app_name a))
      else if mode a = Some ''metadata-export'' then Some (JStr ''chronon_metadata_export'')
      else map_of (cli_args e0) ''APP_NAME'')"
  by (simp add: cli_layer_def map_of_dict_set Let_def)

lemma conf_layers_APP_NAME:
  assumes "conf_layers w r c m teams_json e0 = Inr e1"
  shows "\<exists>context conf_type team name.
           unpack_conf c = Inr (context, conf_type, team)
         \<and> (\<exists>conf_json. load_json w (path_join r c) = Inr conf_json
               \<and> conf_name conf_json = Inr name)
         \<and> map_of (cli_args e1) ''APP_NAME''
             = Some (JStr (APP_NAME_TEMPLATE conf_type m context (format_value w name)))"
  using assms
  by (auto simp: conf_layers_def Let_def map_of_dict_set split: sum.splits prod.splits)

text \<open>
  A variable of \<open>cli_args\<close> reaches the environment when no document layer defines it and
  the process environment does not define it.
\<close>

lemma cli_args_applied:
  assumes env: "load_environment w a = Inr environment"
    and layers: "conf_env environment = JObj c" "team_env environment = JObj t"
      "default_env environment = JObj d" "common_env environment = JObj cm"
    and absent: "map_of c X = None" "map_of t X = None" "map_of d X = None" "map_of cm X = None"
    and unset: "map_of env X = None"
    and cli: "map_of (cli_args environment) X = Some (JStr s)"
    and run: "set_runtime_env w a env = (Inr (), env')"
  shows "map_of env' X = Some s"
proof -
  have all: "set_layers [JObj c, JObj t, JObj d, JObj cm, JObj (cli_args environment)] env
      = (Inr (), env')"
    using env run layers unfolding set_runtime_env_def order_def by (simp split: sum.splits)
  obtain r1 e1 where s1: "set_items c env = (r1, e1)" by (cases "set_items c env")
  obtain r2 e2 where s2: "set_items t e1 = (r2, e2)" by (cases "set_items t e1")
  obtain r3 e3 where s3: "set_items d e2 = (r3, e3)" by (cases "set_items d e2")
  obtain r4 e4 where s4: "set_items cm e3 = (r4, e4)" by (cases "set_items cm e3")
  have n1: "map_of e1 X = None" using set_items_absent [OF absent(1) unset] s1 by simp
  have n2: "map_of e2 X = None" using set_items_absent [OF absent(2) n1] s2 by simp
  have n3: "map_of e3 X = None" using set_items_absent [OF absent(3) n2] s3 by simp
  have n4: "map_of e4 X = None" using set_items_absent [OF absent(4) n3] s4 by simp
  have "\<exists>u. set_items (cli_args environment) e4 = (Inr u, env')"
    using all s1 s2 s3 s4
    by (cases r1; cases r2; cases r3; cases r4; cases "set_items (cli_args environment) e4")
       (auto split: sum.splits)
  then obtain u where "set_items (cli_args environment) e4 = (Inr u, env')" ..
  from set_items_sets [OF cli n4 this] show ?thesis .
qed

text \<open>
  C7 (the code at the failing input). \<open>--repo named --mode metadata-export --app-name my_app\<close>
  with an empty process environment: the \<open>cli_args\<close> layer holds \<open>APP_NAME = my_app\<close>, but
  \<open>cli_args\<close> is applied last and \<open>common_env\<close> has set \<open>APP_NAME\<close> before it, so the
  environment ends with \<open>APP_NAME = team_default_app\<close>; without \<open>--app-name\<close> the literal
  \<open>chronon_metadata_export\<close> is shadowed in the same way.
\<close>

theorem explicit_app_name_shadowed:
  "load_environment named_world named_args =
     Inr \<lparr>common_env = JObj [(''APP_NAME'', JStr ''team_default_app'')],
          conf_env = JObj [], default_env = JObj [], team_env = JObj [],
          cli_args =
            [(''APP_NAME'', JStr ''my_app''), (''CHRONON_DRIVER_JAR'', JNull),
             (''CHRONON_ONLINE_JAR'', JNull), (''CHRONON_ONLINE_CLASS'', JNull)]\<rparr>
   \<and> set_runtime_env named_world named_args [] = (Inr (), [(''APP_NAME'', ''team_default_app'')])
   \<and> map_of (cli_args_of named_world (named_args\<lparr>app_name := None\<rparr>)) ''APP_NAME''
        = Some (JStr ''chronon_metadata_export'')
   \<and> set_runtime_env named_world (named_args\<lparr>app_name := None\<rparr>) []
        = (Inr (), [(''APP_NAME'', ''team_default_app'')])"
  by code_simp

subsection \<open>The route table\<close>

text \<open>
  C4. \<open>ROUTES['joins']['fetch']\<close> is \<open>fetch\<close>; \<open>stats-summary\<close> is not a mode of
  \<open>group_bys\<close>, so the lookup of line 279 raises \<open>KeyError\<close> and the assertion of line 260
  fails; a conf type that is not in the table raises \<open>KeyError\<close> in both. For every conf
  type and mode, the lookup succeeds, with the table's subcommand, if and only if the conf type
  is in the table and the mode is in that conf type's mode set, and the check of
  \<open>Runner.__init__\<close> passes in exactly the same cases.
\<close>

theorem route_lookup:
  "subcommand ''joins'' ''fetch'' = Inr ''fetch''
   \<and> subcommand ''group_bys'' ''stats-summary'' = Inl KeyError
   \<and> check_mode ''group_bys'' (Some ''stats-summary'') = Inl AssertionError
   \<and> (map_of ROUTES ct = None \<longrightarrow>
        subcommand ct m = Inl KeyError \<and> check_mode ct (Some m) = Inl KeyError)
   \<and> (\<forall>modes. map_of ROUTES ct = Some modes \<longrightarrow>
        (if m \<in> fst ` set modes
         then (\<exists>s. map_of modes m = Some s \<and> subcommand ct m = Inr s)
              \<and> check_mode ct (Some m) = Inr ()
         else subcommand ct m = Inl KeyError \<and> check_mode ct (Some m) = Inl AssertionError))
   \<and> ((\<exists>s. subcommand ct m = Inr s)
        \<longleftrightarrow> (\<exists>modes. map_of ROUTES ct = Some modes \<and> m \<in> fst ` set modes))"
proof -
  have a: "subcommand ''joins'' ''fetch'' = Inr ''fetch''" by code_simp
  have b: "subcommand ''group_bys'' ''stats-summary'' = Inl KeyError" by code_simp
  have c: "check_mode ''group_bys'' (Some ''stats-summary'') = Inl AssertionError" by code_simp
  have d: "map_of ROUTES ct = None \<Longrightarrow>
        subcommand ct m = Inl KeyError \<and> check_mode ct (Some m) = Inl KeyError"
    by (simp add: subcommand_def check_mode_def getitem_def)
  have e: "(if m \<in> fst ` set modes
         then (\<exists>s. map_of modes m = Some s \<and> subcommand ct m = Inr s)
              \<and> check_mode ct (Some m) = Inr ()
         else subcommand ct m = Inl KeyError \<and> check_mode ct (Some m) = Inl AssertionError)"
    if routes: "map_of ROUTES ct = Some modes" for modes
  proof (cases "m \<in> fst ` set modes")
    case True
    then obtain s where "map_of modes m = Some s"
      by (metis map_of_eq_None_iff not_Some_eq)
    with True routes show ?thesis
      by (simp add: subcommand_def check_mode_def getitem_def)
  next
    case False
    then have "map_of modes m = None"
      by (simp add: map_of_eq_None_iff)
    with False routes show ?thesis
      by (simp add: subcommand_def check_mode_def getitem_def)
  qed
  have f: "(\<exists>s. subcommand ct m = Inr s)
        \<longleftrightarrow> (\<exists>modes. map_of ROUTES ct = Some modes \<and> m \<in> fst ` set modes)"
  proof (cases "map_of ROUTES ct")
    case None
    with d show ?thesis by simp
  next
    case (Some modes)
    with e [OF Some] show ?thesis by (auto split: if_splits)
  qed
  from a b c d e f show ?thesis by blast
qed

theorem route_lookup_witness:
  "map_of ROUTES ''staging_queries''
     = Some [(''backfill'', ''staging-query-backfill''), (''metadata-export'', ''metadata-export'')]
   \<and> subcommand ''staging_queries'' ''backfill'' = Inr ''staging-query-backfill''
   \<and> check_mode ''staging_queries'' (Some ''backfill'') = Inr ()
   \<and> subcommand ''staging_queries'' ''fetch'' = Inl KeyError
   \<and> check_mode ''staging_queries'' (Some ''fetch'') = Inl AssertionError
   \<and> map_of ROUTES ''models'' = None
   \<and> subcommand ''models'' ''backfill'' = Inl KeyError
   \<and> check_mode ''models'' (Some ''backfill'') = Inl KeyError"
proof -
  let ?modes = "[(''backfill'', ''staging-query-backfill''), (''metadata-export'', ''metadata-export'')]"
  have table: "map_of ROUTES ''staging_queries'' = Some ?modes"
    and none: "map_of ROUTES ''models'' = None"
    by (simp_all add: ROUTES_def)
  have "''backfill'' \<in> fst ` set ?modes" and "''fetch'' \<notin> fst ` set ?modes"
    and "map_of ?modes ''backfill'' = Some ''staging-query-backfill''"
    by simp_all
  with table none
    route_lookup [of "''staging_queries''" "''backfill''"]
    route_lookup [of "''staging_queries''" "''fetch''"]
    route_lookup [of "''models''" "''backfill''"]
  show ?thesis
    by (auto split: if_splits)
qed

lemma init_conf_type_short:
  "c \<noteq> [] \<Longrightarrow> length (split_on CHR ''/'' c) < 4
     \<Longrightarrow> init_conf_type (Some c) mode_arg conf_type_arg = Inl ValueError"
  by (simp add: init_conf_type_def unpack_conf_short)

subsection \<open>The conditional download\<close>

lemma download_only_once_head_fails:
  "path_exists w (strip is_space path) \<Longrightarrow> remote_size w url = Inl e
    \<Longrightarrow> download_only_once w url path = (Inl e, [])"
  by (simp add: download_only_once_def Let_def)

lemma parse_digits_all:
  "\<forall>d\<in>set ds. is_digit d \<Longrightarrow> ds \<noteq> [] \<or> prev
     \<Longrightarrow> parse_digits prev acc ds = Some (foldl (\<lambda>acc d. 10 * acc + (of_char d - 48)) acc ds)"
  by (induction ds arbitrary: prev acc) auto

lemma digit_not_space:
  "is_digit d \<Longrightarrow> \<not> is_space d \<and> \<not> is_bytes_space d \<and> \<not> is_int_space d"
  by (auto simp: is_digit_def is_space_def is_bytes_space_def is_int_space_def Let_def)

lemma digit_not_sign: "is_digit d \<Longrightarrow> d \<noteq> CHR ''-'' \<and> d \<noteq> CHR ''+''"
  by (auto simp: is_digit_def Let_def)

lemma strip_unchanged:
  assumes "s \<noteq> []" and "\<not> sp (hd s)" and "\<not> sp (last s)"
  shows "strip sp s = s"
proof -
  have front: "dropWhile sp s = s"
    using assms(2) by (simp add: dropWhile_eq_self_iff)
  have "dropWhile sp (rev s) = rev s"
    using assms(1,3) by (simp add: dropWhile_eq_self_iff hd_rev)
  with front show ?thesis
    by (simp add: strip_def)
qed

lemma py_int_digits:
  assumes "ds \<noteq> []" and "\<forall>d\<in>set ds. is_digit d" and "\<forall>d. is_digit d \<longrightarrow> \<not> sp d"
  shows "py_int sp ds = Inr (int (decimal ds))"
proof -
  obtain c cs where ds: "ds = c # cs"
    using assms(1) by (cases ds) auto
  have "is_digit (hd ds)" and "is_digit (last ds)"
    using assms(1,2) by simp_all
  then have "strip sp ds = ds"
    using assms(1,3) by (intro strip_unchanged) auto
  moreover have "parse_digits False 0 ds = Some (decimal ds)"
    using parse_digits_all [OF assms(2), of False 0] assms(1) by (simp add: decimal_def)
  moreover have "c \<noteq> CHR ''-''" and "c \<noteq> CHR ''+''"
    using assms(2) ds digit_not_sign by auto
  ultimately show ?thesis
    by (simp add: py_int_def ds)
qed

lemma split_ws_from_word:
  "\<forall>x\<in>set xs. \<not> sp x \<Longrightarrow> split_ws_from sp cur (xs @ rest) = split_ws_from sp (rev xs @ cur) rest"
  by (induction xs arbitrary: cur) auto

lemma split_ws_first:
  assumes "ls \<noteq> []" and "\<forall>x\<in>set ls. \<not> sp x" and "rest = [] \<or> sp (hd rest)"
  shows "first_item (split_ws sp (ls @ rest)) = Inr ls"
proof -
  have "split_ws sp (ls @ rest) = split_ws_from sp (rev ls) rest"
    using split_ws_from_word [OF assms(2), of "[]" rest] by (simp add: split_ws_def)
  then show ?thesis
    using assms(1,3) by (cases rest) (auto simp: first_item_def)
qed

lemma split_ws_header:
  assumes "is_space c" and "ds \<noteq> []" and "\<forall>d\<in>set ds. is_digit d"
  shows "last_item (split_ws is_space (''content-length:'' @ c # ds)) = Inr ds"
proof -
  have word: "\<forall>x\<in>set ''content-length:''. \<not> is_space x"
    by (simp add: is_space_def)
  have digits: "\<forall>x\<in>set ds. \<not> is_space x"
    using assms(3) digit_not_space by blast
  have "split_ws is_space (''content-length:'' @ c # ds)
      = split_ws_from is_space (rev ''content-length:'') (c # ds)"
    using split_ws_from_word [OF word, of "[]" "c # ds"] by (simp add: split_ws_def)
  also have "\<dots> = ''content-length:'' # split_ws_from is_space [] (ds @ [])"
    using assms(1) by simp
  also have "split_ws_from is_space [] (ds @ []) = [ds]"
    using split_ws_from_word [OF digits, of "[]" "[]"] assms(2) by simp
  finally show ?thesis
    by (simp add: last_item_def)
qed

lemma startswith_take: "startswith s p \<longleftrightarrow> take (length p) s = p"
  by (induction s p rule: startswith.induct) auto

lemma match_content_length_here:
  assumes "is_space c" and "ds \<noteq> []" and "\<forall>d\<in>set ds. is_digit d"
    and "rest = [] \<or> \<not> is_digit (hd rest)"
  shows "match_content_length (''content-length:'' @ c # ds @ rest)
      = Some (''content-length:'' @ c # ds)"
proof -
  have "takeWhile is_digit rest = []"
    using assms(4) by (cases rest) auto
  then have "takeWhile is_digit (ds @ rest) = ds"
    using assms(3) by (simp add: takeWhile_append2)
  then show ?thesis
    using assms(1,2) by (simp add: match_content_length_def)
qed

lemma match_content_length_none:
  assumes "take 15 s \<noteq> ''content-length:''"
  shows "match_content_length s = None"
proof -
  have len: "length ''content-length:'' = 15"
    by simp
  have "\<not> startswith s ''content-length:''"
    unfolding startswith_take len using assms .
  then show ?thesis
    by (simp add: match_content_length_def)
qed

lemma search_content_length_skip:
  "\<forall>i<length pre. take 15 (drop i (pre @ s)) \<noteq> ''content-length:''
     \<Longrightarrow> search_content_length (pre @ s) = search_content_length s"
proof (induction pre)
  case Nil
  then show ?case by simp
next
  case (Cons a pre)
  have here: "take 15 ((a # pre) @ s) \<noteq> ''content-length:''"
    using Cons.prems by (metis drop0 length_greater_0_conv list.distinct(1))
  have "\<forall>i<length pre. take 15 (drop i (pre @ s)) \<noteq> ''content-length:''"
  proof (intro allI impI)
    fix i assume "i < length pre"
    then have "Suc i < length (a # pre)" by simp
    with Cons.prems have "take 15 (drop (Suc i) ((a # pre) @ s)) \<noteq> ''content-length:''"
      by blast
    then show "take 15 (drop i (pre @ s)) \<noteq> ''content-length:''" by simp
  qed
  from Cons.IH [OF this] match_content_length_none [OF here] show ?case
    by simp
qed

lemma search_content_length_first:
  assumes "s = pre @ ''content-length:'' @ c # ds @ rest"
    and "\<forall>i<length pre. take 15 (drop i s) \<noteq> ''content-length:''"
    and "is_space c" and "ds \<noteq> []" and "\<forall>d\<in>set ds. is_digit d"
    and "rest = [] \<or> \<not> is_digit (hd rest)"
  shows "search_content_length s = Some (''content-length:'' @ c # ds)"
proof -
  have "search_content_length s = search_content_length (''content-length:'' @ c # ds @ rest)"
    using search_content_length_skip [of pre "''content-length:'' @ c # ds @ rest"] assms(1,2)
    by simp
  also have "\<dots> = Some (''content-length:'' @ c # ds)"
    using match_content_length_here [OF assms(3-6)] by simp
  finally show ?thesis .
qed

lemma no_c_no_match:
  "CHR ''c'' \<notin> set pre \<Longrightarrow> \<forall>i<length pre. take 15 (drop i (pre @ s)) \<noteq> ''content-length:''"
proof (intro allI impI)
  fix i assume c: "CHR ''c'' \<notin> set pre" and i: "i < length pre"
  then have "drop i (pre @ s) = pre ! i # drop (Suc i) (pre @ s)"
    by (simp add: Cons_nth_drop_Suc nth_append)
  moreover have "pre ! i \<noteq> CHR ''c''"
    using c i by (metis nth_mem)
  ultimately show "take 15 (drop i (pre @ s)) \<noteq> ''content-length:''"
    by auto
qed

lemma remote_size_header:
  assumes "subprocess_check_output w (split_ws is_space (''curl -sI '' @ url)) = Inr head"
    and "lower (strip is_bytes_space head) = pre @ ''content-length:'' @ c # ds @ rest"
    and "\<forall>i<length pre. take 15 (drop i (lower (strip is_bytes_space head))) \<noteq> ''content-length:''"
    and "is_space c" and "ds \<noteq> []" and "\<forall>d\<in>set ds. is_digit d"
    and "rest = [] \<or> \<not> is_digit (hd rest)"
  shows "remote_size w url = Inr (int (decimal ds))"
proof -
  have "search_content_length (lower (strip is_bytes_space head))
      = Some (''content-length:'' @ c # ds)"
    using search_content_length_first [OF assms(2-7)] .
  moreover have "py_int is_int_space ds = Inr (int (decimal ds))"
    using py_int_digits [OF assms(5,6)] digit_not_space by blast
  ultimately show ?thesis
    using assms(1) split_ws_header [OF assms(4-6)]
    by (simp add: remote_size_def check_output_def)
qed

lemma local_size_wc:
  assumes "subprocess_check_output w (split_ws is_space (''wc -c '' @ p)) = Inr wc"
    and "strip is_bytes_space wc = ls @ rest" and "ls \<noteq> []" and "\<forall>d\<in>set ls. is_digit d"
    and "rest = [] \<or> is_bytes_space (hd rest)"
  shows "local_size w p = Inr (int (decimal ls))"
proof -
  have "\<forall>x\<in>set ls. \<not> is_bytes_space x"
    using assms(4) digit_not_space by blast
  from split_ws_first [OF assms(3) this assms(5)]
  have "first_item (split_ws is_bytes_space (strip is_bytes_space wc)) = Inr ls"
    by (simp add: assms(2))
  moreover have "py_int is_bytes_space ls = Inr (int (decimal ls))"
    using py_int_digits [OF assms(3,4)] digit_not_space by blast
  ultimately show ?thesis
    using assms(1) by (simp add: local_size_def check_output_def)
qed

text \<open>
  C9 (as the claim states it, refuted). A file exists at \<open>/tmp/a.jar\<close> and the output of
  the \<open>HEAD\<close> request has no \<open>Content-Length\<close>, so the file's size is not equal to a
  reported remote size; yet \<open>download_only_once\<close> runs no download: the search of line 109
  finds nothing and line 110 raises \<open>AttributeError\<close>.
\<close>

theorem download_only_once_no_content_length_counterexample:
  "path_exists headless_world ''/tmp/a.jar''
   \<and> check_output headless_world ''curl -sI http://host/a.jar''
        = Inr (''HTTP/1.1 200 OK'' @ [CHR 0x0D, CHR 0x0A] @ ''Transfer-Encoding: chunked'')
   \<and> check_output headless_world ''wc -c /tmp/a.jar'' = Inr ''1024 /tmp/a.jar''
   \<and> download_only_once headless_world ''http://host/a.jar'' ''/tmp/a.jar''
        = (Inl AttributeError, [])"
  by code_simp

text \<open>
  C9 (amended). Provided that, when a file exists at the stripped local path, the output of
  the \<open>HEAD\<close> request reports a \<open>Content-Length\<close> (in the lowercased output the first
  \<open>content-length:\<close> is followed by one whitespace character and the digits \<open>ds\<close>) and
  the output of \<open>wc -c\<close> starts with the digits \<open>ls\<close> of the file's size:
  \<open>download_only_once\<close> returns without running the download exactly when the file
  exists and the two numbers are equal; with no local file, or with different sizes, the
  \<open>curl\<close> download is the one command it runs.
\<close>

theorem download_only_once_skips_iff:
  assumes sizes: "path_exists w (strip is_space path) \<Longrightarrow>
        subprocess_check_output w (split_ws is_space (''curl -sI '' @ url)) = Inr head
      \<and> lower (strip is_bytes_space head) = pre @ ''content-length:'' @ c # ds @ rest
      \<and> (\<forall>i<length pre. take 15 (drop i (lower (strip is_bytes_space head))) \<noteq> ''content-length:'')
      \<and> is_space c \<and> ds \<noteq> [] \<and> (\<forall>d\<in>set ds. is_digit d) \<and> (rest = [] \<or> \<not> is_digit (hd rest))
      \<and> subprocess_check_output w (split_ws is_space (''wc -c '' @ strip is_space path)) = Inr wc
      \<and> strip is_bytes_space wc = ls @ rest' \<and> ls \<noteq> [] \<and> (\<forall>d\<in>set ls. is_digit d)
      \<and> (rest' = [] \<or> is_bytes_space (hd rest'))"
  shows "download_only_once w url path =
     (if path_exists w (strip is_space path) \<and> decimal ls = decimal ds then (Inr (), [])
      else (check_call w (curl_download url (strip is_space path)),
            [curl_download url (strip is_space path)]))"
proof (cases "path_exists w (strip is_space path)")
  case True
  note s = sizes [OF True]
  have "remote_size w url = Inr (int (decimal ds))"
    using s by (intro remote_size_header [where pre = pre and rest = rest and head = head]) auto
  moreover have "local_size w (strip is_space path) = Inr (int (decimal ls))"
    using s by (intro local_size_wc [where rest = rest' and wc = wc]) auto
  ultimately show ?thesis
    using True by (simp add: download_only_once_def Let_def)
next
  case False
  then show ?thesis
    by (simp add: download_only_once_def Let_def)
qed

theorem download_only_once_skips_iff_witness:
  "download_only_once (jar_world ''1024 /tmp/a.jar'') ''http://host/a.jar'' '' /tmp/a.jar ''
     = (Inr (), [])
   \<and> download_only_once (jar_world ''1000 /tmp/a.jar'') ''http://host/a.jar'' '' /tmp/a.jar ''
     = (Inr (), [''curl http://host/a.jar -o /tmp/a.jar --connect-timeout 10''])
   \<and> download_only_once (jar_world ''1000 /tmp/a.jar'') ''http://host/a.jar'' ''/tmp/b.jar''
     = (Inr (), [''curl http://host/a.jar -o /tmp/b.jar --connect-timeout 10''])"
proof -
  let ?head = "''HTTP/1.1 200 OK'' @ [CHR 0x0D, CHR 0x0A] @ ''Content-Length: 1024''
                 @ [CHR 0x0D, CHR 0x0A, CHR 0x0D, CHR 0x0A]"
  let ?pre = "''http/1.1 200 ok'' @ [CHR 0x0D, CHR 0x0A]"
  have head: "subprocess_check_output (jar_world wc_out)
        (split_ws is_space (''curl -sI '' @ ''http://host/a.jar'')) = Inr ?head" for wc_out
    by (simp add: jar_world_def split_ws_def is_space_def)
  have low: "lower (strip is_bytes_space ?head)
      = ?pre @ ''content-length:'' @ CHR '' '' # ''1024'' @ []"
    by code_simp
  have left: "\<forall>i<length ?pre.
      take 15 (drop i (lower (strip is_bytes_space ?head))) \<noteq> ''content-length:''"
    unfolding low by (rule no_c_no_match) simp
  have header: "is_space CHR '' ''" "''1024'' \<noteq> []" "\<forall>d\<in>set ''1024''. is_digit d"
    by (simp_all add: is_space_def is_digit_def)
  have wc: "subprocess_check_output (jar_world wc_out)
        (split_ws is_space (''wc -c '' @ strip is_space '' /tmp/a.jar '')) = Inr wc_out" for wc_out
    by (simp add: jar_world_def split_ws_def strip_def is_space_def)
  have same: "strip is_bytes_space ''1024 /tmp/a.jar'' = ''1024'' @ '' /tmp/a.jar''"
    and differ: "strip is_bytes_space ''1000 /tmp/a.jar'' = ''1000'' @ '' /tmp/a.jar''"
    by code_simp+
  have loc: "\<forall>d\<in>set ''1024''. is_digit d" "\<forall>d\<in>set ''1000''. is_digit d"
      "is_bytes_space (hd '' /tmp/a.jar'')"
    by (simp_all add: is_digit_def is_bytes_space_def)
  have missing: "\<not> path_exists (jar_world ''1000 /tmp/a.jar'') (strip is_space ''/tmp/b.jar'')"
    by code_simp
  have present: "path_exists (jar_world wc_out) (strip is_space '' /tmp/a.jar '')" for wc_out
    by (simp add: jar_world_def strip_def is_space_def)
  have cmd: "curl_download ''http://host/a.jar'' (strip is_space '' /tmp/a.jar '')
        = ''curl http://host/a.jar -o /tmp/a.jar --connect-timeout 10''"
      "curl_download ''http://host/a.jar'' (strip is_space ''/tmp/b.jar'')
        = ''curl http://host/a.jar -o /tmp/b.jar --connect-timeout 10''"
    by code_simp+
  have call: "check_call (jar_world ''1000 /tmp/a.jar'') x = Inr ()" for x
    by (simp add: check_call_def jar_world_def sample_world_def)
  have nums: "decimal ''1024'' = 1024" "decimal ''1000'' = 1000"
    by (simp_all add: decimal_def)
  have one: "download_only_once (jar_world ''1024 /tmp/a.jar'') ''http://host/a.jar'' '' /tmp/a.jar ''
     = (Inr (), [])"
    using download_only_once_skips_iff [of "jar_world ''1024 /tmp/a.jar''" "'' /tmp/a.jar ''" "''http://host/a.jar''"
        ?head ?pre "CHR '' ''" "''1024''" "[]" "''1024 /tmp/a.jar''" "''1024''" "'' /tmp/a.jar''"]
      head low left header wc same loc present
    by simp
  have two: "download_only_once (jar_world ''1000 /tmp/a.jar'') ''http://host/a.jar'' '' /tmp/a.jar ''
     = (Inr (), [''curl http://host/a.jar -o /tmp/a.jar --connect-timeout 10''])"
    using download_only_once_skips_iff [of "jar_world ''1000 /tmp/a.jar''" "'' /tmp/a.jar ''" "''http://host/a.jar''"
        ?head ?pre "CHR '' ''" "''1024''" "[]" "''1000 /tmp/a.jar''" "''1000''" "'' /tmp/a.jar''"]
      head low left header wc differ loc present call nums
    by (simp add: cmd)
  have three: "download_only_once (jar_world ''1000 /tmp/a.jar'') ''http://host/a.jar'' ''/tmp/b.jar''
     = (Inr (), [''curl http://host/a.jar -o /tmp/b.jar --connect-timeout 10''])"
    using download_only_once_skips_iff [of "jar_world ''1000 /tmp/a.jar''" "''/tmp/b.jar''" "''http://host/a.jar''"
        ?head ?pre "CHR '' ''" "''1024''" "[]" "''1000 /tmp/a.jar''" "''1000''" "'' /tmp/a.jar''"]
      missing call
    by (simp add: cmd)
  from one two three show ?thesis by blast
qed

subsection \<open>The check for a running streaming job\<close>







end
